theory Spec2Isabelle
  imports Complex_Main
begin

section \<open>The supervisor of the gateway process (app/src/main/index.js)\<close>

text \<open>
  The main process of the wallet is an event-driven program: module-level variables, a
  set of registered listeners, and asynchronous functions that are suspended at each
  \<^verbatim>\<open>await\<close>. JavaScript runs every listener to completion, so the model is a state
  record and one function \<open>step\<close> that handles one external event (a message of the
  renderer, output or exit of a child process, the answer of an HTTP probe, a timer,
  an event of the app or of its window) together with every continuation that this
  event resumes. Everything the program
  does to the outside (spawning and killing processes, writing to a child's input,
  sending a message to the window, HTTP requests, timers) is appended to the list
  \<open>effects\<close> of the state, in program order.

  Strings are \<open>string\<close>; a \<open>Buffer\<close> of process output is a \<open>string\<close> as well.

  Left out of the model: error collection with Raven, what is written to the console
  and into the log files, errors of the file system other than a missing file, a
  spawn that fails, and the end of the process. \<^verbatim>\<open>main\<close> runs from the start of the
  program to its first wait for a child process in one piece.
\<close>

subsection \<open>Strings\<close>

text \<open>\<^verbatim>\<open>s.split(":")[0]\<close>: the part of \<open>s\<close> before its first colon (all of \<open>s\<close> without one).\<close>

definition split_colon_first :: "string \<Rightarrow> string" where
  "split_colon_first s = takeWhile (\<lambda>c. c \<noteq> CHR '':'') s"

text \<open>\<^verbatim>\<open>s.split(",")\<close>: the fields between commas; the empty string has one empty field.\<close>

fun split_comma :: "string \<Rightarrow> string list" where
  "split_comma [] = [[]]"
| "split_comma (c # cs) =
     (if c = CHR '','' then [] # split_comma cs
      else (case split_comma cs of
              [] \<Rightarrow> [[c]]
            | f # fs \<Rightarrow> (c # f) # fs))"

text \<open>
  \<^verbatim>\<open>s.trim()\<close> removes white space at both ends. The white space characters of
  ECMAScript that a \<open>char\<close> (a code unit below 256) can hold are TAB, LF, VT, FF, CR,
  SPACE and NBSP.
\<close>

definition is_whitespace :: "char \<Rightarrow> bool" where
  "is_whitespace c =
     (c = CHR 0x09 \<or> c = CHR 0x0A \<or> c = CHR 0x0B \<or> c = CHR 0x0C \<or> c = CHR 0x0D
      \<or> c = CHR 0x20 \<or> c = CHR 0xA0)"

definition trim :: "string \<Rightarrow> string" where
  "trim s = rev (dropWhile is_whitespace (rev (dropWhile is_whitespace s)))"

text \<open>\<^verbatim>\<open>data.includes(pat)\<close>: \<open>pat\<close> occurs in \<open>data\<close> as a contiguous substring.\<close>

definition starts_with :: "string \<Rightarrow> string \<Rightarrow> bool" where
  "starts_with s pat = (take (length pat) s = pat)"

fun includes_str :: "string \<Rightarrow> string \<Rightarrow> bool" where
  "includes_str [] pat = (pat = [])"
| "includes_str (c # cs) pat = (starts_with (c # cs) pat \<or> includes_str cs pat)"

text \<open>
  \<^verbatim>\<open>/\w{40}/g.exec(data)\<close>: the leftmost run of 40 word characters
  (letters, digits, underscore), or no match.
\<close>

definition is_word_char :: "char \<Rightarrow> bool" where
  "is_word_char c =
     (let n = (of_char c :: nat)
      in (97 \<le> n \<and> n \<le> 122) \<or> (65 \<le> n \<and> n \<le> 90) \<or> (48 \<le> n \<and> n \<le> 57) \<or> n = 95)"

fun hashMatch :: "string \<Rightarrow> string option" where
  "hashMatch [] = None"
| "hashMatch (c # cs) =
     (if 40 \<le> length (takeWhile is_word_char (c # cs)) then Some (take 40 (c # cs))
      else hashMatch cs)"

subsection \<open>Thrown values, messages, effects\<close>

datatype js_error =
    Error string        \<comment> \<open>\<^verbatim>\<open>Error(message)\<close>\<close>
  | TypeError string    \<comment> \<open>a property of \<^verbatim>\<open>undefined\<close> or \<^verbatim>\<open>null\<close>; an invalid version\<close>
  | ParseError string   \<comment> \<open>thrown by \<^verbatim>\<open>JSON.parse\<close> or \<^verbatim>\<open>toml.parse\<close>\<close>
  | ENOENT string       \<comment> \<open>a file that is read or accessed does not exist\<close>
  | Rejected string     \<comment> \<open>a promise rejected with a plain string\<close>
  | ChildFailure string \<comment> \<open>the error of a child's \<^verbatim>\<open>error\<close> event, with its code\<close>

datatype payload = PString string | PError js_error | PUndefined

type_synonym pid = nat
type_synonym reqid = nat

datatype effect =
    Spawn pid "string list"   \<comment> \<open>\<^verbatim>\<open>spawn(binPath, args)\<close>: the child and its arguments\<close>
  | Kill pid string           \<comment> \<open>\<^verbatim>\<open>child.kill(signal)\<close>\<close>
  | StdinWrite pid string     \<comment> \<open>\<^verbatim>\<open>child.stdin.write(text)\<close>\<close>
  | Send string payload       \<comment> \<open>\<^verbatim>\<open>mainWindow.webContents.send(channel, value)\<close>\<close>
  | HttpGet reqid string nat  \<comment> \<open>\<^verbatim>\<open>axios.get(url, {timeout})\<close>\<close>
  | SetTimeout reqid nat      \<comment> \<open>\<^verbatim>\<open>setTimeout(resolve, ms)\<close>\<close>

subsection \<open>Versions (the semver package)\<close>

record semver =
  major :: nat
  minor :: nat
  patch :: nat
  prerelease :: "string list"

text \<open>
  The semver package is a dependency of the program, not part of it. Its parser is a
  parameter of the model (\<open>semver_parse\<close> below); \<open>semver_diff\<close> follows the documented
  behaviour of \<^verbatim>\<open>semver.diff\<close>: \<^verbatim>\<open>null\<close> for equal versions, otherwise the first
  of major, minor, patch in which the versions differ, with the prefix \<^verbatim>\<open>pre\<close> when a
  version carries a prerelease tag, and \<^verbatim>\<open>prerelease\<close> when only the tags differ.
  An invalid version makes it throw a TypeError.
\<close>

definition semver_diff_parsed :: "semver \<Rightarrow> semver \<Rightarrow> string option" where
  "semver_diff_parsed v1 v2 =
     (if major v1 = major v2 \<and> minor v1 = minor v2 \<and> patch v1 = patch v2
         \<and> prerelease v1 = prerelease v2 then None
      else
        (let pre = (if prerelease v1 \<noteq> [] \<or> prerelease v2 \<noteq> [] then ''pre'' else '''')
         in if major v1 \<noteq> major v2 then Some (pre @ ''major'')
            else if minor v1 \<noteq> minor v2 then Some (pre @ ''minor'')
            else if patch v1 \<noteq> patch v2 then Some (pre @ ''patch'')
            else Some ''prerelease''))"

definition semver_diff ::
  "(string \<Rightarrow> semver option) \<Rightarrow> string \<Rightarrow> string \<Rightarrow> js_error + string option" where
  "semver_diff parse a b =
     (case parse a of
        None \<Rightarrow> Inl (TypeError (''Invalid Version: '' @ a))
      | Some v1 \<Rightarrow>
          (case parse b of
             None \<Rightarrow> Inl (TypeError (''Invalid Version: '' @ b))
           | Some v2 \<Rightarrow> Inr (semver_diff_parsed v1 v2)))"

subsection \<open>The environment of the program\<close>

text \<open>
  A value read from parsed JSON: a string, or any other value (\<^verbatim>\<open>undefined\<close>, a
  number, ...) together with the string it is coerced to when it is passed on as a
  command-line argument. Only a \<open>JString\<close> can be \<^verbatim>\<open>===\<close> to a string.
\<close>

datatype json_value = JString string | JOther string

definition to_arg :: "json_value \<Rightarrow> string" where
  "to_arg v = (case v of JString s \<Rightarrow> s | JOther s \<Rightarrow> s)"

text \<open>
  What the program reads from its surroundings and never changes: environment
  variables and constants of the configuration, the network bundle shipped with the
  app, the parsers of its dependencies, and the results of \<^verbatim>\<open>Math.random()\<close>
  (\<open>random k\<close> is the result of the \<open>k\<close>-th call, a number in \<open>[0, 1)\<close>).
\<close>

record env =
  NODE :: "string option"                 \<comment> \<open>\<^verbatim>\<open>process.env.COSMOS_NODE\<close>\<close>
  TEST :: bool                            \<comment> \<open>\<^verbatim>\<open>NODE_ENV === "testing"\<close>\<close>
  LOGGING :: bool
  LCD_PORT :: string
  root :: string                          \<comment> \<open>the path of the home directory\<close>
  lcdHome :: string                       \<comment> \<open>\<^verbatim>\<open>join(root, "lcd")\<close>\<close>
  pkg_version :: string                   \<comment> \<open>\<^verbatim>\<open>pkg.version\<close>\<close>
  network :: "(string \<rightharpoonup> string) option"   \<comment> \<open>the files under \<^verbatim>\<open>networkPath\<close>, if it exists\<close>
  semver_parse :: "string \<Rightarrow> semver option"
  JSON_chain_id :: "string \<Rightarrow> js_error + json_value"
    \<comment> \<open>\<^verbatim>\<open>JSON.parse(text).chain_id\<close>: an exception or the value\<close>
  toml_p2p_seeds :: "string \<Rightarrow> js_error + string"
    \<comment> \<open>\<^verbatim>\<open>toml.parse(text).p2p.seeds\<close>: an exception or the string\<close>
  random :: "nat \<Rightarrow> real"

subsection \<open>Choosing a node\<close>

text \<open>
  \<^verbatim>\<open>NODE || seeds[Math.floor(Math.random() * seeds.length)]\<close>: an unset or empty
  \<^verbatim>\<open>COSMOS_NODE\<close> is falsy; an index outside the array gives \<^verbatim>\<open>undefined\<close>, whose
  \<^verbatim>\<open>split\<close> throws. \<open>r\<close> is the result of \<^verbatim>\<open>Math.random()\<close>.
\<close>

definition truthy :: "string option \<Rightarrow> bool" where
  "truthy v = (case v of None \<Rightarrow> False | Some s \<Rightarrow> s \<noteq> [])"

definition element_at :: "'a list \<Rightarrow> int \<Rightarrow> 'a option" where
  "element_at xs i = (if 0 \<le> i \<and> i < int (length xs) then Some (xs ! nat i) else None)"

definition pickNode :: "string option \<Rightarrow> real \<Rightarrow> string list \<Rightarrow> js_error + string" where
  "pickNode forced r seeds =
     (case (if truthy forced then forced
            else element_at seeds \<lfloor>r * real (length seeds)\<rfloor>) of
        None \<Rightarrow> Inl (TypeError ''Cannot read property split of undefined'')
      | Some nodeIP \<Rightarrow> Inr (split_colon_first nodeIP @ '':46657''))"

subsection \<open>The state of the main process\<close>

text \<open>
  Where the asynchronous function \<^verbatim>\<open>main\<close> is suspended, with the local variables its
  continuation needs.
\<close>

datatype main_pc =
    MainStart
      \<comment> \<open>\<^verbatim>\<open>main()\<close> has not run yet\<close>
  | MainAwaitVersion pid bool
      \<comment> \<open>\<^verbatim>\<open>await getGaiaVersion()\<close>: the child, \<^verbatim>\<open>init\<close>\<close>
  | MainAwaitInitialized pid bool json_value
      \<comment> \<open>\<^verbatim>\<open>await lcdInitialized(...)\<close>: the child, \<^verbatim>\<open>init\<close>, \<^verbatim>\<open>chainId\<close>\<close>
  | MainAwaitInit
      \<comment> \<open>\<^verbatim>\<open>await initLCD(chainId, lcdHome, nodeIP)\<close>\<close>
  | MainAwaitConnect pid "string option"
      \<comment> \<open>\<^verbatim>\<open>await connect(seeds, nodeIP)\<close>: the gateway child, the parameter \<^verbatim>\<open>nodeIP\<close>\<close>
  | MainDone
  | MainFailed js_error
      \<comment> \<open>\<^verbatim>\<open>main()\<close> rejected; the error went to \<^verbatim>\<open>handleCrash\<close>\<close>

text \<open>
  Where one call of the asynchronous function \<^verbatim>\<open>reconnect\<close> is suspended. Every call
  that passed the guard on \<^verbatim>\<open>connecting\<close> and has not returned is one element of the
  list \<open>reconnects\<close> of the state.
\<close>

datatype reconnect_pc =
    RcProbe reqid "string list option" string
      \<comment> \<open>awaiting \<^verbatim>\<open>axios.get\<close>: the request, the parameter \<^verbatim>\<open>seeds\<close>, the \<^verbatim>\<open>nodeIP\<close> of the loop body\<close>
  | RcSleep reqid "string list option"
      \<comment> \<open>awaiting \<^verbatim>\<open>sleep(2000)\<close>\<close>
  | RcConnect pid "string option"
      \<comment> \<open>awaiting \<^verbatim>\<open>connect(seeds, nodeIP)\<close>: the gateway child, the parameter \<^verbatim>\<open>nodeIP\<close>\<close>

text \<open>
  The closure of \<^verbatim>\<open>handleHashVerification(hashMatch[0])\<close> inside the output listener
  of \<^verbatim>\<open>initLCD(chainId, home, node)\<close>: one outstanding trust request.
\<close>

datatype trust_request =
  TrustRequest (fingerprint: string) (child: pid) (chainId: json_value) (home: string)

text \<open>
  The module-level variable \<^verbatim>\<open>mainWindow\<close>: \<^verbatim>\<open>undefined\<close> until \<^verbatim>\<open>createWindow()\<close>
  assigns a window, \<^verbatim>\<open>null\<close> after \<^verbatim>\<open>shutdown()\<close>. When a window is closed while the
  program is shutting down already, \<^verbatim>\<open>shutdown()\<close> returns at its guard and the variable
  keeps the destroyed window, whose use throws. A message can be sent to an open
  window only.
\<close>

datatype window = WindowUndefined | WindowOpen | WindowNull | WindowDestroyed

record state =
  shuttingDown :: bool
  mainWindow :: window
  lcdProcess :: "pid option"
  nodeIP :: "string option"
  connecting :: bool
  seeds :: "string list option"
  booted :: bool
  files :: "(string \<rightharpoonup> string) option"
    \<comment> \<open>the files of the home directory by name, \<open>None\<close> when the directory does not exist\<close>
  next_id :: nat
    \<comment> \<open>identifies the next child process, HTTP request or timer\<close>
  random_calls :: nat
    \<comment> \<open>the number of calls of \<^verbatim>\<open>Math.random()\<close> so far\<close>
  booted_once :: "(string \<times> payload) list"
    \<comment> \<open>the messages of the \<^verbatim>\<open>ipcMain.once("booted", ...)\<close> listeners of \<^verbatim>\<open>afterBooted\<close>\<close>
  lost :: "(string \<times> payload) list"
    \<comment> \<open>the messages of such listeners that threw: a record that the program does not keep\<close>
  hash_approved :: "trust_request list"
    \<comment> \<open>the \<^verbatim>\<open>ipcMain.once("hash-approved", ...)\<close> listeners\<close>
  hash_disapproved :: "trust_request list"
    \<comment> \<open>the \<^verbatim>\<open>ipcMain.once("hash-disapproved", ...)\<close> listeners\<close>
  init_stdout :: "(pid \<times> json_value \<times> string) list"
    \<comment> \<open>the output listeners of \<^verbatim>\<open>initLCD\<close>: child, \<^verbatim>\<open>chainId\<close>, \<^verbatim>\<open>home\<close>\<close>
  exit_listeners :: "pid list"
    \<comment> \<open>the \<^verbatim>\<open>exit\<close> listeners of \<^verbatim>\<open>expectCleanExit\<close> on approved children\<close>
  gateways :: "pid list"
    \<comment> \<open>the children of \<^verbatim>\<open>startLCD\<close>, each with its \<^verbatim>\<open>exit\<close> listener\<close>
  main_pc :: main_pc
  reconnects :: "reconnect_pc list"
  effects :: "effect list"

text \<open>
  The module-level variables as the module initialises them, with nothing registered;
  \<open>fs\<close> is the home directory on disk.
\<close>

definition initial :: "(string \<rightharpoonup> string) option \<Rightarrow> state" where
  "initial fs =
     \<lparr> shuttingDown = False, mainWindow = WindowUndefined, lcdProcess = None, nodeIP = None,
       connecting = True, seeds = None, booted = False, files = fs, next_id = 0,
       random_calls = 0, booted_once = [], lost = [], hash_approved = [],
       hash_disapproved = [], init_stdout = [], exit_listeners = [], gateways = [],
       main_pc = MainStart, reconnects = [], effects = [] \<rparr>"

subsection \<open>Helpers of the module\<close>

definition emit :: "effect \<Rightarrow> state \<Rightarrow> state" where
  "emit e s = s\<lparr>effects := effects s @ [e]\<rparr>"

text \<open>
  \<^verbatim>\<open>mainWindow.webContents.send(channel, value)\<close>, the body of every callback that the
  program passes to \<^verbatim>\<open>afterBooted\<close>: without an open window the expression throws and
  nothing is sent.
\<close>

definition send :: "string \<times> payload \<Rightarrow> state \<Rightarrow> js_error + state" where
  "send msg s =
     (case mainWindow s of
        WindowOpen \<Rightarrow> Inr (emit (Send (fst msg) (snd msg)) s)
      | WindowUndefined \<Rightarrow> Inl (TypeError ''Cannot read property webContents of undefined'')
      | WindowNull \<Rightarrow> Inl (TypeError ''Cannot read property webContents of null'')
      | WindowDestroyed \<Rightarrow> Inl (TypeError ''Object has been destroyed''))"

text \<open>
  \<^verbatim>\<open>afterBooted(cb)\<close>: the callback runs now when the view has booted, and an exception
  of the callback is an exception of \<^verbatim>\<open>afterBooted\<close>; otherwise the callback is
  registered to run once at the next \<^verbatim>\<open>booted\<close> message.
\<close>

definition afterBooted :: "string \<times> payload \<Rightarrow> state \<Rightarrow> js_error + state" where
  "afterBooted msg s =
     (if booted s then send msg s
      else Inr (s\<lparr>booted_once := booted_once s @ [msg]\<rparr>))"

definition handleCrash :: "js_error \<Rightarrow> state \<Rightarrow> js_error + state" where
  "handleCrash err s = afterBooted (''error'', PError err) s"

text \<open>
  A rejected promise that nothing handles reaches the \<^verbatim>\<open>unhandledRejection\<close> listener,
  and an exception that escapes from a listener reaches the \<^verbatim>\<open>uncaughtException\<close>
  listener; both are installed unless the program runs under test, and both call
  \<^verbatim>\<open>handleCrash\<close>. They are asynchronous functions: when \<^verbatim>\<open>handleCrash\<close> throws in
  one of them, its promise is rejected and nothing handles it, so the new error comes
  back to the \<^verbatim>\<open>unhandledRejection\<close> listener in the same state, where \<^verbatim>\<open>handleCrash\<close>
  throws again, and so on: the state does not change any more. Under test no listener
  is installed, and what the runtime does with the error is outside the model.
\<close>

definition unhandledRejection :: "env \<Rightarrow> js_error \<Rightarrow> state \<Rightarrow> state" where
  "unhandledRejection env err s =
     (if TEST env then s
      else (case handleCrash err s of Inr s' \<Rightarrow> s' | Inl err' \<Rightarrow> s))"

definition uncaughtException :: "env \<Rightarrow> js_error \<Rightarrow> state \<Rightarrow> state" where
  "uncaughtException env err s =
     (if TEST env then s
      else (case handleCrash err s of Inr s' \<Rightarrow> s' | Inl err' \<Rightarrow> s))"

text \<open>\<^verbatim>\<open>createWindow()\<close> assigns a new window, whose \<^verbatim>\<open>closed\<close> event calls \<^verbatim>\<open>shutdown\<close>.\<close>

definition createWindow :: "state \<Rightarrow> state" where
  "createWindow s = s\<lparr>mainWindow := WindowOpen\<rparr>"

definition shutdown :: "state \<Rightarrow> state" where
  "shutdown s =
     (if shuttingDown s then s
      else (case lcdProcess s of
              None \<Rightarrow> s\<lparr>mainWindow := WindowNull, shuttingDown := True\<rparr>
            | Some p \<Rightarrow>
                emit (Kill p ''SIGKILL'')
                  (s\<lparr>mainWindow := WindowNull, shuttingDown := True, lcdProcess := None\<rparr>)))"

text \<open>
  \<^verbatim>\<open>startProcess(SERVER_BINARY, args)\<close>: the spawn is taken to succeed; the child is
  identified by a fresh number. Its output and exit listeners only log.
\<close>

definition startProcess :: "string list \<Rightarrow> state \<Rightarrow> pid \<times> state" where
  "startProcess args s =
     (next_id s, emit (Spawn (next_id s) args) (s\<lparr>next_id := Suc (next_id s)\<rparr>))"

text \<open>\<^verbatim>\<open>fs.ensureFileSync(path)\<close>: creates an empty file unless the file exists.\<close>

definition ensureFile :: "string \<Rightarrow> (string \<rightharpoonup> string) \<Rightarrow> (string \<rightharpoonup> string)" where
  "ensureFile name f = (case f name of None \<Rightarrow> f(name \<mapsto> []) | Some t \<Rightarrow> f)"

definition readFile :: "(string \<rightharpoonup> string) option \<Rightarrow> string \<Rightarrow> js_error + string" where
  "readFile fs name =
     (case fs of
        None \<Rightarrow> Inl (ENOENT name)
      | Some f \<Rightarrow> (case f name of None \<Rightarrow> Inl (ENOENT name) | Some t \<Rightarrow> Inr t))"

text \<open>
  \<^verbatim>\<open>pickNode(seeds)\<close> in the state: \<^verbatim>\<open>Math.random()\<close> is called only when no node is
  forced; \<^verbatim>\<open>seeds\<close> may still be \<^verbatim>\<open>null\<close>, whose \<^verbatim>\<open>length\<close> throws.
\<close>

definition pick :: "env \<Rightarrow> string list option \<Rightarrow> state \<Rightarrow> (js_error + string) \<times> state" where
  "pick env sd s =
     (if truthy (NODE env) then (pickNode (NODE env) 0 [], s)
      else (case sd of
              None \<Rightarrow> (Inl (TypeError ''Cannot read property length of null''),
                        s\<lparr>random_calls := Suc (random_calls s)\<rparr>)
            | Some xs \<Rightarrow> (pickNode (NODE env) (random env (random_calls s)) xs,
                          s\<lparr>random_calls := Suc (random_calls s)\<rparr>)))"

text \<open>An optional string as a command-line argument and as the value of a message.\<close>

definition arg_of :: "string option \<Rightarrow> string" where
  "arg_of v = (case v of None \<Rightarrow> ''undefined'' | Some t \<Rightarrow> t)"

definition payload_of :: "string option \<Rightarrow> payload" where
  "payload_of v = (case v of None \<Rightarrow> PUndefined | Some t \<Rightarrow> PString t)"

subsection \<open>Starting the gateway: startLCD and connect\<close>

text \<open>
  \<^verbatim>\<open>startLCD(home, nodeIP)\<close> spawns the gateway, makes sure its log file exists and
  registers two listeners: the promise resolves at the first output that includes
  \<^verbatim>\<open>Serving on\<close>; an exit sends an error to the window, and an exception of this
  listener is an uncaught exception. Nothing rejects the promise and no timer is set.
  The only caller passes \<^verbatim>\<open>lcdHome\<close>, the directory \<^verbatim>\<open>lcd\<close> of the home directory, so
  the log file is \<^verbatim>\<open>lcd/lcd.log\<close> there.
\<close>

definition logProcess :: "string \<Rightarrow> state \<Rightarrow> state" where
  "logProcess name s = s\<lparr>files := map_option (ensureFile name) (files s)\<rparr>"

definition startLCD :: "env \<Rightarrow> string \<Rightarrow> string option \<Rightarrow> state \<Rightarrow> pid \<times> state" where
  "startLCD env hm node s =
     (let (p, s1) = startProcess
            [''rest-server'', ''--port'', LCD_PORT env, ''--home'', hm, ''--node'', arg_of node] s
      in (p, (logProcess ''lcd/lcd.log'' s1)\<lparr>gateways := gateways s1 @ [p]\<rparr>))"

definition gateway_exit :: "env \<Rightarrow> state \<Rightarrow> state" where
  "gateway_exit env s =
     (case afterBooted (''error'', PError (Error ''The Gaia REST-server (LCD) exited unplanned'')) s of
        Inr s' \<Rightarrow> s'
      | Inl err \<Rightarrow> uncaughtException env err s)"

text \<open>
  \<^verbatim>\<open>connect(seeds, nodeIP)\<close> up to its \<^verbatim>\<open>await\<close>, and what it does once \<^verbatim>\<open>startLCD\<close>
  has resolved with the child: the child is assigned to \<^verbatim>\<open>lcdProcess\<close>, the message
  \<^verbatim>\<open>connected\<close> is handed to \<^verbatim>\<open>afterBooted\<close>, and then \<^verbatim>\<open>connecting\<close> is cleared. When
  the send throws, \<^verbatim>\<open>connect\<close> is rejected with that error before it clears the flag.
  The result is the error, if any, and the state.
\<close>

definition connect :: "env \<Rightarrow> string option \<Rightarrow> state \<Rightarrow> pid \<times> state" where
  "connect env node s = startLCD env (lcdHome env) node s"

definition connect_resume :: "pid \<Rightarrow> string option \<Rightarrow> state \<Rightarrow> js_error option \<times> state" where
  "connect_resume p node s =
     (case afterBooted (''connected'', payload_of node) (s\<lparr>lcdProcess := Some p\<rparr>) of
        Inl err \<Rightarrow> (Some err, s\<lparr>lcdProcess := Some p\<rparr>)
      | Inr s' \<Rightarrow> (None, s'\<lparr>connecting := False\<rparr>))"

subsection \<open>Reconnecting\<close>

text \<open>
  One round of the loop of \<^verbatim>\<open>reconnect\<close>: pick a node into the \<^verbatim>\<open>let nodeIP\<close> of the
  loop body and probe it. An exception ends this call of \<^verbatim>\<open>reconnect\<close> with an
  unhandled rejection.
\<close>

definition reconnect_round :: "env \<Rightarrow> string list option \<Rightarrow> state \<Rightarrow> state" where
  "reconnect_round env sd s =
     (case pick env sd s of
        (Inl err, s1) \<Rightarrow> unhandledRejection env err s1
      | (Inr node, s1) \<Rightarrow>
          emit (HttpGet (next_id s1) (''http://'' @ node) 3000)
            (s1\<lparr>next_id := Suc (next_id s1),
                reconnects := reconnects s1 @ [RcProbe (next_id s1) sd node]\<rparr>))"

definition reconnect :: "env \<Rightarrow> state \<Rightarrow> state" where
  "reconnect env s =
     (if connecting s then s
      else reconnect_round env (seeds s) (s\<lparr>connecting := True\<rparr>))"

text \<open>
  After the loop: the running gateway is killed and \<^verbatim>\<open>connect(seeds, nodeIP)\<close> is
  called. The \<^verbatim>\<open>nodeIP\<close> of the loop body is out of scope here, so this \<^verbatim>\<open>nodeIP\<close>
  is the module-level variable.
\<close>

definition reconnect_finish :: "env \<Rightarrow> state \<Rightarrow> state" where
  "reconnect_finish env s =
     (case lcdProcess s of
        None \<Rightarrow> unhandledRejection env (TypeError ''Cannot read property kill of null'') s
      | Some g \<Rightarrow>
          (let (p, s1) = connect env (nodeIP s) (emit (Kill g ''SIGKILL'') s)
           in s1\<lparr>reconnects := reconnects s1 @ [RcConnect p (nodeIP s)]\<rparr>))"

definition awaits_probe :: "reqid \<Rightarrow> reconnect_pc \<Rightarrow> bool" where
  "awaits_probe r rc = (case rc of RcProbe r' sd node \<Rightarrow> r' = r | _ \<Rightarrow> False)"

definition awaits_sleep :: "reqid \<Rightarrow> reconnect_pc \<Rightarrow> bool" where
  "awaits_sleep r rc = (case rc of RcSleep r' sd \<Rightarrow> r' = r | _ \<Rightarrow> False)"

definition awaits_connect :: "pid \<Rightarrow> reconnect_pc \<Rightarrow> bool" where
  "awaits_connect p rc = (case rc of RcConnect p' node \<Rightarrow> p' = p | _ \<Rightarrow> False)"

text \<open>The answer of a probe: \<open>alive\<close> is true for a response, false for an error or a timeout.\<close>

definition probe_result :: "env \<Rightarrow> reqid \<Rightarrow> bool \<Rightarrow> state \<Rightarrow> state" where
  "probe_result env r alive s =
     (case find (awaits_probe r) (reconnects s) of
        Some (RcProbe r' sd node) \<Rightarrow>
          (let s1 = s\<lparr>reconnects := filter (\<lambda>rc. \<not> awaits_probe r rc) (reconnects s)\<rparr>
           in if alive then reconnect_finish env s1
              else emit (SetTimeout (next_id s1) 2000)
                     (s1\<lparr>next_id := Suc (next_id s1),
                         reconnects := reconnects s1 @ [RcSleep (next_id s1) sd]\<rparr>))
      | _ \<Rightarrow> s)"

definition timer_fired :: "env \<Rightarrow> reqid \<Rightarrow> state \<Rightarrow> state" where
  "timer_fired env r s =
     (case find (awaits_sleep r) (reconnects s) of
        Some (RcSleep r' sd) \<Rightarrow>
          reconnect_round env sd
            (s\<lparr>reconnects := filter (\<lambda>rc. \<not> awaits_sleep r rc) (reconnects s)\<rparr>)
      | _ \<Rightarrow> s)"

subsection \<open>The function main, in the pieces between its awaits\<close>

text \<open>
  \<^verbatim>\<open>main()\<close> is rejected with an error: \<^verbatim>\<open>.catch(err => { logError(err); handleCrash(err) })\<close>.
  When \<^verbatim>\<open>handleCrash\<close> throws there, the promise of \<^verbatim>\<open>catch\<close> is rejected and nothing
  handles it.
\<close>

definition fail_main :: "env \<Rightarrow> js_error \<Rightarrow> state \<Rightarrow> state" where
  "fail_main env err s =
     (case handleCrash err (s\<lparr>main_pc := MainFailed err\<rparr>) of
        Inr s' \<Rightarrow> s'
      | Inl err' \<Rightarrow> unhandledRejection env err' (s\<lparr>main_pc := MainFailed err\<rparr>))"

definition main_connect :: "env \<Rightarrow> state \<Rightarrow> state" where
  "main_connect env s =
     (let (p, s1) = connect env (nodeIP s) s
      in s1\<lparr>main_pc := MainAwaitConnect p (nodeIP s)\<rparr>)"

definition consistentConfigDir :: "(string \<rightharpoonup> string) \<Rightarrow> bool" where
  "consistentConfigDir f =
     (f ''genesis.json'' \<noteq> None \<and> f ''app_version'' \<noteq> None
      \<and> f ''config.toml'' \<noteq> None \<and> f ''gaiaversion.txt'' \<noteq> None)"

definition IncompatibleDataVersion :: "string \<Rightarrow> string \<Rightarrow> js_error" where
  "IncompatibleDataVersion existingVersion app =
     Error (''Data was created with an incompatible app version'' @ [CHR 0x0A]
            @ ''        data='' @ existingVersion @ '' app='' @ app)"

definition CorruptDataDirectory :: "string \<Rightarrow> js_error" where
  "CorruptDataDirectory dir = Error (''The data directory ('' @ dir @ '') has missing files'')"

definition GenesisMismatch :: js_error where
  "GenesisMismatch = Error ''Genesis has changed''"

text \<open>
  The comparison of the stored genesis with the one of the network bundle
  (\<^verbatim>\<open>if (!init) { ... }\<close>). The result is the value of \<^verbatim>\<open>init\<close>.
\<close>

definition check_genesis :: "env \<Rightarrow> (string \<rightharpoonup> string) \<Rightarrow> js_error + bool" where
  "check_genesis env f =
     (case readFile (Some f) ''genesis.json'' of
        Inl err \<Rightarrow> Inl err
      | Inr existingGenesis \<Rightarrow>
          (case JSON_chain_id env existingGenesis of
             Inl err \<Rightarrow> Inl err
           | Inr cid \<Rightarrow>
               if cid \<noteq> JString ''local'' then
                 (case readFile (network env) ''genesis.json'' of
                    Inl err \<Rightarrow> Inl err
                  | Inr specifiedGenesis \<Rightarrow>
                      if trim existingGenesis \<noteq> trim specifiedGenesis
                      then Inl GenesisMismatch else Inr False)
               else Inr False))"

text \<open>
  The checks of an existing home directory (\<^verbatim>\<open>if (rootExists) { ... }\<close>): all four
  files, then the version, then the genesis.
\<close>

definition check_existing :: "env \<Rightarrow> (string \<rightharpoonup> string) \<Rightarrow> js_error + bool" where
  "check_existing env f =
     (if consistentConfigDir f then
        (case readFile (Some f) ''app_version'' of
           Inl err \<Rightarrow> Inl err
         | Inr text \<Rightarrow>
             (let existingVersion = trim text
              in case semver_diff (semver_parse env) existingVersion (pkg_version env) of
                   Inl err \<Rightarrow> Inl err
                 | Inr d \<Rightarrow>
                     if d \<noteq> Some ''major'' then check_genesis env f
                     else Inl (IncompatibleDataVersion existingVersion (pkg_version env))))
      else Inl (CorruptDataDirectory (root env)))"

text \<open>
  The initialisation of a new home directory (\<^verbatim>\<open>if (init) { ... }\<close>): the files of the
  network bundle are copied over the directory and the version is written.
\<close>

definition initialize_directory :: "env \<Rightarrow> (string \<rightharpoonup> string) \<Rightarrow> js_error + (string \<rightharpoonup> string)" where
  "initialize_directory env f =
     (case network env of
        None \<Rightarrow> Inl (ENOENT ''networkPath'')
      | Some nf \<Rightarrow> Inr ((f ++ nf)(''app_version'' \<mapsto> pkg_version env)))"

definition setupLogging :: "env \<Rightarrow> (string \<rightharpoonup> string) \<Rightarrow> (string \<rightharpoonup> string)" where
  "setupLogging env f = (if LOGGING env then ensureFile ''main.log'' f else f)"

text \<open>
  \<^verbatim>\<open>main()\<close> from the start of the program to its first suspension on a child process,
  \<^verbatim>\<open>await getGaiaVersion()\<close>. \<open>fs0\<close> is the home directory that the program finds.
\<close>

definition main :: "env \<Rightarrow> (string \<rightharpoonup> string) option \<Rightarrow> state" where
  "main env fs0 =
     (let rootExists = (fs0 \<noteq> None);
          f1 = setupLogging env (case fs0 of None \<Rightarrow> Map.empty | Some f \<Rightarrow> f);
          s = (initial fs0)\<lparr>files := Some f1\<rparr>
      in case (if rootExists then check_existing env f1 else Inr True) of
           Inl err \<Rightarrow> fail_main env err s
         | Inr init \<Rightarrow>
             (case (if init then initialize_directory env f1 else Inr f1) of
                Inl err \<Rightarrow> fail_main env err s
              | Inr f2 \<Rightarrow>
                  (let (p, s1) = startProcess [''version''] (s\<lparr>files := Some f2\<rparr>)
                   in s1\<lparr>main_pc := MainAwaitVersion p init\<rparr>)))"

definition GaiaVersionMismatch :: "string \<Rightarrow> string \<Rightarrow> js_error" where
  "GaiaVersionMismatch expected got =
     Error (''Requires gaia '' @ expected @ '', but got '' @ got @ ''.'' @ [CHR 0x0A]
            @ ''    Please update your gaia installation or build with a newer binary.'')"

definition NoSeeds :: js_error where
  "NoSeeds = Error ''No seeds specified in config.toml''"

text \<open>\<^verbatim>\<open>configTOML.p2p.seeds.split(",").filter(x => x !== "")\<close>\<close>

definition parse_seeds :: "string \<Rightarrow> string list" where
  "parse_seeds text = filter (\<lambda>x. x \<noteq> []) (split_comma text)"

text \<open>
  \<^verbatim>\<open>main()\<close> from the first output of \<^verbatim>\<open>gaia version\<close> to
  \<^verbatim>\<open>await lcdInitialized(...)\<close>: first the version of the binary, the chain id and the
  text of the seeds are read, each of which may throw.
\<close>

definition main_read_config :: "env \<Rightarrow> string \<Rightarrow> state \<Rightarrow> js_error + json_value \<times> string" where
  "main_read_config env data s =
     (case readFile (files s) ''gaiaversion.txt'' of
        Inl err \<Rightarrow> Inl err
      | Inr text \<Rightarrow>
          if trim data \<noteq> trim text then Inl (GaiaVersionMismatch (trim text) (trim data))
          else
            (case readFile (files s) ''genesis.json'' of
               Inl err \<Rightarrow> Inl err
             | Inr genesisText \<Rightarrow>
                 (case JSON_chain_id env genesisText of
                    Inl err \<Rightarrow> Inl err
                  | Inr cid \<Rightarrow>
                      (case readFile (files s) ''config.toml'' of
                         Inl err \<Rightarrow> Inl err
                       | Inr configText \<Rightarrow>
                           (case toml_p2p_seeds env configText of
                              Inl err \<Rightarrow> Inl err
                            | Inr seedsText \<Rightarrow> Inr (cid, seedsText))))))"

definition lcdInitialized :: "env \<Rightarrow> state \<Rightarrow> pid \<times> state" where
  "lcdInitialized env s = startProcess [''client'', ''init'', ''--home'', lcdHome env] s"

definition main_resume_version :: "env \<Rightarrow> string \<Rightarrow> bool \<Rightarrow> state \<Rightarrow> state" where
  "main_resume_version env data init s =
     (case main_read_config env data s of
        Inl err \<Rightarrow> fail_main env err s
      | Inr (cid, seedsText) \<Rightarrow>
          (let s1 = s\<lparr>seeds := Some (parse_seeds seedsText)\<rparr>
           in if length (parse_seeds seedsText) = 0 then fail_main env NoSeeds s1
              else
                (case pick env (seeds s1) s1 of
                   (Inl err, s2) \<Rightarrow> fail_main env err s2
                 | (Inr node, s2) \<Rightarrow>
                     (let (p, s3) = lcdInitialized env (s2\<lparr>nodeIP := Some node\<rparr>)
                      in s3\<lparr>main_pc := MainAwaitInitialized p init cid\<rparr>))))"

subsection \<open>The trust handshake: initLCD and handleHashVerification\<close>

text \<open>
  \<^verbatim>\<open>initLCD(chainId, home, node)\<close> spawns \<^verbatim>\<open>gaia client init\<close> and registers a listener
  on its output. Every call made for a retry passes its result on to the promise of
  the first call, the one \<^verbatim>\<open>main\<close> awaits.
\<close>

definition initLCD :: "json_value \<Rightarrow> string \<Rightarrow> string option \<Rightarrow> state \<Rightarrow> state" where
  "initLCD cid hm node s =
     (let (p, s1) = startProcess
            [''client'', ''init'', ''--home'', hm, ''--chain-id'', to_arg cid, ''--node'', arg_of node] s
      in s1\<lparr>init_stdout := init_stdout s1 @ [(p, cid, hm)]\<rparr>)"

text \<open>
  The promise that \<^verbatim>\<open>main\<close> awaits is settled: resolved (\<open>None\<close>) or rejected with an
  error. Only the first settlement counts.
\<close>

definition init_settled :: "env \<Rightarrow> js_error option \<Rightarrow> state \<Rightarrow> state" where
  "init_settled env outcome s =
     (case main_pc s of
        MainAwaitInit \<Rightarrow>
          (case outcome of None \<Rightarrow> main_connect env s | Some err \<Rightarrow> fail_main env err s)
      | _ \<Rightarrow> s)"

text \<open>
  \<^verbatim>\<open>handleHashVerification(nodeHash)\<close> registers one listener for each of the two
  messages. The output listener of \<^verbatim>\<open>initLCD\<close> calls it for every chunk of output in
  which the pattern matches, after asking the view to approve the hash. The listener
  is an asynchronous function: when asking the view throws, the listener ends there
  with a rejection that nothing handles, and no request is registered.
\<close>

definition handleHashVerification :: "trust_request \<Rightarrow> state \<Rightarrow> state" where
  "handleHashVerification tr s =
     s\<lparr>hash_approved := hash_approved s @ [tr], hash_disapproved := hash_disapproved s @ [tr]\<rparr>"

definition init_output :: "env \<Rightarrow> pid \<times> json_value \<times> string \<Rightarrow> string \<Rightarrow> state \<Rightarrow> state" where
  "init_output env l data s =
     (case hashMatch data of
        None \<Rightarrow> s
      | Some h \<Rightarrow>
          (case afterBooted (''approve-hash'', PString h) s of
             Inl err \<Rightarrow> unhandledRejection env err s
           | Inr s' \<Rightarrow>
               handleHashVerification (TrustRequest h (fst l) (fst (snd l)) (snd (snd l))) s'))"

text \<open>The two continuations of \<^verbatim>\<open>handleHashVerification(...).then(..., ...)\<close>.\<close>

definition approved :: "trust_request \<Rightarrow> state \<Rightarrow> state" where
  "approved tr s =
     (if shuttingDown s then s
      else (emit (StdinWrite (child tr) (''y'' @ [CHR 0x0A])) s)
             \<lparr>exit_listeners := exit_listeners s @ [child tr]\<rparr>)"

definition rejected :: "env \<Rightarrow> trust_request \<Rightarrow> state \<Rightarrow> state" where
  "rejected env tr s =
     (let s1 = emit (Kill (child tr) ''SIGTERM'') s
      in if shuttingDown s1 then s1
         else (case pick env (seeds s1) s1 of
                 (Inl err, s2) \<Rightarrow> init_settled env (Some err) s2
               | (Inr node, s2) \<Rightarrow>
                   initLCD (chainId tr) (home tr) (Some node) (s2\<lparr>nodeIP := Some node\<rparr>)))"

text \<open>
  A message \<^verbatim>\<open>hash-approved\<close> with a hash: every listener registered for it is called
  once and is gone; each removes all listeners of \<^verbatim>\<open>hash-disapproved\<close> and settles its
  own promise by comparing the hash with its own. Then the continuations run, in the
  order of the listeners. A message \<^verbatim>\<open>hash-disapproved\<close> is handled the same way, and
  every listener rejects.
\<close>

definition settle :: "env \<Rightarrow> string \<Rightarrow> state \<Rightarrow> trust_request \<Rightarrow> state" where
  "settle env hash s tr = (if hash = fingerprint tr then approved tr s else rejected env tr s)"

definition hash_approved_message :: "env \<Rightarrow> string \<Rightarrow> state \<Rightarrow> state" where
  "hash_approved_message env hash s =
     (case hash_approved s of
        [] \<Rightarrow> s
      | tr # trs \<Rightarrow>
          foldl (settle env hash) (s\<lparr>hash_approved := [], hash_disapproved := []\<rparr>) (tr # trs))"

definition hash_disapproved_message :: "env \<Rightarrow> state \<Rightarrow> state" where
  "hash_disapproved_message env s =
     (case hash_disapproved s of
        [] \<Rightarrow> s
      | tr # trs \<Rightarrow>
          foldl (\<lambda>s' tr'. rejected env tr' s') (s\<lparr>hash_approved := [], hash_disapproved := []\<rparr>)
            (tr # trs))"

text \<open>
  \<^verbatim>\<open>expectCleanExit(child, message)\<close> at the exit of the child: rejects for a non-zero
  code unless the program is shutting down, resolves otherwise.
\<close>

definition expectCleanExit :: "int \<Rightarrow> state \<Rightarrow> js_error option" where
  "expectCleanExit code s =
     (if code \<noteq> 0 \<and> \<not> shuttingDown s then Some (Error ''gaia init exited unplanned'') else None)"

subsection \<open>Events\<close>

datatype event =
    Stdout pid string        \<comment> \<open>a chunk of output of a child\<close>
  | Stderr pid string        \<comment> \<open>a chunk of error output of a child\<close>
  | Exit pid int             \<comment> \<open>a child exits with a code\<close>
  | ChildError pid string    \<comment> \<open>the \<^verbatim>\<open>error\<close> event of a child, with the code of the error\<close>
  | HttpResult reqid bool    \<comment> \<open>a probe is answered (true) or fails or times out (false)\<close>
  | TimerFired reqid         \<comment> \<open>a timer set by \<^verbatim>\<open>sleep\<close> fires\<close>
  | IpcBooted                \<comment> \<open>the messages of the renderer\<close>
  | IpcReconnect
  | IpcHashApproved string
  | IpcHashDisapproved string
  | AppReady                 \<comment> \<open>the \<^verbatim>\<open>ready\<close> event of the app\<close>
  | AppActivate              \<comment> \<open>the \<^verbatim>\<open>activate\<close> event of the app\<close>
  | WindowClosed             \<comment> \<open>the \<^verbatim>\<open>closed\<close> event of the window\<close>

definition main_resume_initialized :: "env \<Rightarrow> bool \<Rightarrow> json_value \<Rightarrow> bool \<Rightarrow> state \<Rightarrow> state" where
  "main_resume_initialized env init cid initialized s =
     (if init \<or> \<not> initialized
      then (initLCD cid (lcdHome env) (nodeIP s) s)\<lparr>main_pc := MainAwaitInit\<rparr>
      else main_connect env s)"

text \<open>
  The gateway reports that it serves: the promise of \<^verbatim>\<open>startLCD\<close> resolves, once, and
  the \<^verbatim>\<open>connect\<close> that awaits it goes on. When this \<^verbatim>\<open>connect\<close> is rejected, so is its
  caller: \<^verbatim>\<open>reconnect\<close>, whose rejection nothing handles, or \<^verbatim>\<open>main\<close>.
\<close>

definition reconnect_serving :: "env \<Rightarrow> pid \<Rightarrow> state \<Rightarrow> state" where
  "reconnect_serving env p s =
     (case find (awaits_connect p) (reconnects s) of
        Some (RcConnect q node) \<Rightarrow>
          (case connect_resume p node
                  (s\<lparr>reconnects := filter (\<lambda>rc. \<not> awaits_connect p rc) (reconnects s)\<rparr>) of
             (None, s') \<Rightarrow> s'
           | (Some err, s') \<Rightarrow> unhandledRejection env err s')
      | _ \<Rightarrow> s)"

definition gateway_serving :: "env \<Rightarrow> pid \<Rightarrow> state \<Rightarrow> state" where
  "gateway_serving env p s =
     (case main_pc s of
        MainAwaitConnect q node \<Rightarrow>
          if q = p then
            (case connect_resume p node s of
               (None, s') \<Rightarrow> s'\<lparr>main_pc := MainDone\<rparr>
             | (Some err, s') \<Rightarrow> fail_main env err s')
          else reconnect_serving env p s
      | _ \<Rightarrow> reconnect_serving env p s)"

text \<open>
  Output of a child reaches the listener that was registered on this child: the one
  of \<^verbatim>\<open>getGaiaVersion\<close>, of \<^verbatim>\<open>initLCD\<close> or of \<^verbatim>\<open>startLCD\<close>.
\<close>

definition child_output :: "env \<Rightarrow> pid \<Rightarrow> string \<Rightarrow> state \<Rightarrow> state" where
  "child_output env p data s =
     (case find (\<lambda>l. fst l = p) (init_stdout s) of
        Some l \<Rightarrow> init_output env l data s
      | None \<Rightarrow>
          if p \<in> set (gateways s) \<and> includes_str data ''Serving on''
          then gateway_serving env p s else s)"

definition stdout_data :: "env \<Rightarrow> pid \<Rightarrow> string \<Rightarrow> state \<Rightarrow> state" where
  "stdout_data env p data s =
     (case main_pc s of
        MainAwaitVersion q init \<Rightarrow>
          if q = p then main_resume_version env data init s else child_output env p data s
      | _ \<Rightarrow> child_output env p data s)"

definition stderr_data :: "env \<Rightarrow> pid \<Rightarrow> string \<Rightarrow> state \<Rightarrow> state" where
  "stderr_data env p data s =
     (case main_pc s of
        MainAwaitInitialized q init cid \<Rightarrow>
          if q \<noteq> p then s
          else if includes_str data ''already is initialized''
            then main_resume_initialized env init cid True s
          else if includes_str data ([CHR 0x22] @ ''--chain-id'' @ [CHR 0x22] @ '' required'')
            then main_resume_initialized env init cid False s
          else fail_main env (Rejected (''Unknown state for Gaia initialization: '' @ data)) s
      | _ \<Rightarrow> s)"

definition child_exit :: "env \<Rightarrow> pid \<Rightarrow> int \<Rightarrow> state \<Rightarrow> state" where
  "child_exit env p code s =
     foldl (\<lambda>s' q. if q = p then init_settled env (expectCleanExit code s') s' else s')
       (if p \<in> set (gateways s) then gateway_exit env s else s)
       (exit_listeners s)"

text \<open>
  The \<^verbatim>\<open>error\<close> listener that \<^verbatim>\<open>startProcess\<close> registers on every child is an
  asynchronous function: when \<^verbatim>\<open>handleCrash\<close> throws, its rejection is handled by nothing.
\<close>

definition child_error :: "env \<Rightarrow> pid \<Rightarrow> string \<Rightarrow> state \<Rightarrow> state" where
  "child_error env p code s =
     (if p < next_id s \<and> \<not> (shuttingDown s \<and> code = ''ECONNRESET'')
      then (case handleCrash (ChildFailure code) s of
              Inr s' \<Rightarrow> s'
            | Inl err \<Rightarrow> unhandledRejection env err s)
      else s)"

text \<open>
  The message \<^verbatim>\<open>booted\<close>: the listener of \<^verbatim>\<open>handleIPC\<close>, registered first, sets the
  flag; then the listeners of \<^verbatim>\<open>afterBooted\<close> run in the order of their registration.
  Each is removed before its callback runs. A callback that throws ends the delivery
  of the message with an uncaught exception: its message is lost, and the listeners
  after it stay registered.
\<close>

fun booted_listeners :: "env \<Rightarrow> (string \<times> payload) list \<Rightarrow> state \<Rightarrow> state" where
  "booted_listeners env [] s = s"
| "booted_listeners env (m # ms) s =
     (case send m (s\<lparr>booted_once := ms\<rparr>) of
        Inr s' \<Rightarrow> booted_listeners env ms s'
      | Inl err \<Rightarrow> uncaughtException env err (s\<lparr>booted_once := ms, lost := lost s @ [m]\<rparr>))"

definition booted_message :: "env \<Rightarrow> state \<Rightarrow> state" where
  "booted_message env s = booted_listeners env (booted_once s) (s\<lparr>booted := True\<rparr>)"

text \<open>
  The window is closed: the window object is destroyed, and its \<^verbatim>\<open>closed\<close> listener
  \<^verbatim>\<open>shutdown\<close> runs. Only an open window can be closed.
\<close>

definition window_closed :: "state \<Rightarrow> state" where
  "window_closed s =
     (if mainWindow s = WindowOpen then shutdown (s\<lparr>mainWindow := WindowDestroyed\<rparr>) else s)"

text \<open>\<^verbatim>\<open>app.on("activate", () => { if (mainWindow === null) createWindow() })\<close>\<close>

definition activate :: "state \<Rightarrow> state" where
  "activate s = (if mainWindow s = WindowNull then createWindow s else s)"

fun step :: "env \<Rightarrow> event \<Rightarrow> state \<Rightarrow> state" where
  "step env (Stdout p data) s = stdout_data env p data s"
| "step env (Stderr p data) s = stderr_data env p data s"
| "step env (Exit p code) s = child_exit env p code s"
| "step env (ChildError p code) s = child_error env p code s"
| "step env (HttpResult r alive) s = probe_result env r alive s"
| "step env (TimerFired r) s = timer_fired env r s"
| "step env IpcBooted s = booted_message env s"
| "step env IpcReconnect s = reconnect env s"
| "step env (IpcHashApproved hash) s = hash_approved_message env hash s"
| "step env (IpcHashDisapproved hash) s = hash_disapproved_message env s"
| "step env AppReady s = createWindow s"
| "step env AppActivate s = activate s"
| "step env WindowClosed s = window_closed s"

text \<open>A run of the program: \<^verbatim>\<open>main()\<close> on the home directory found, then the events in order.\<close>

definition run :: "env \<Rightarrow> event list \<Rightarrow> state \<Rightarrow> state" where
  "run env es s = foldl (\<lambda>s' e. step env e s') s es"

subsection \<open>Concrete inputs\<close>

text \<open>
  A small installation used to evaluate the model: the parser of versions knows four
  version strings, the chain id of a genesis file is its trimmed text, and the seeds
  of a configuration file are its text.
\<close>

definition example_parse :: "string \<Rightarrow> semver option" where
  "example_parse t =
     (if t = ''0.6.2'' then Some \<lparr>major = 0, minor = 6, patch = 2, prerelease = []\<rparr>
      else if t = ''0.5.0'' then Some \<lparr>major = 0, minor = 5, patch = 0, prerelease = []\<rparr>
      else if t = ''1.0.0'' then Some \<lparr>major = 1, minor = 0, patch = 0, prerelease = []\<rparr>
      else if t = ''2.0.0-beta.1''
        then Some \<lparr>major = 2, minor = 0, patch = 0, prerelease = [''beta'', ''1'']\<rparr>
      else None)"

definition example_files :: "string \<Rightarrow> string \<Rightarrow> string \<Rightarrow> (string \<rightharpoonup> string)" where
  "example_files version genesis config =
     [''app_version'' \<mapsto> version, ''genesis.json'' \<mapsto> genesis, ''config.toml'' \<mapsto> config,
      ''gaiaversion.txt'' \<mapsto> ''0.19.0'']"

definition example_env :: env where
  "example_env =
     \<lparr> NODE = None, TEST = False, LOGGING = True, LCD_PORT = ''8998'',
       root = ''/home/user/.cosmos-voyager'', lcdHome = ''/home/user/.cosmos-voyager/lcd'',
       pkg_version = ''0.6.2'',
       network = Some [''genesis.json'' \<mapsto> ''gaia-6002'',
                       ''config.toml'' \<mapsto> ''a.example:26656,b.example:26656'',
                       ''gaiaversion.txt'' \<mapsto> ''0.19.0''],
       semver_parse = example_parse,
       JSON_chain_id = (\<lambda>t. Inr (JString (trim t))),
       toml_p2p_seeds = (\<lambda>t. Inr t),
       random = (\<lambda>k. if k = 0 then 0 else 1 / 2) \<rparr>"

definition example_dir :: "string \<rightharpoonup> string" where
  "example_dir = example_files ''0.6.2'' ''gaia-6002'' ''a.example:26656,b.example:26656''"

definition example_hash :: string where
  "example_hash = ''0123456789abcdef0123456789abcdef01234567''"

text \<open>
  Three states of a run on this installation, with the window open and after the view
  has booted: the gateway is starting, the gateway serves, and a trust request is
  outstanding.
\<close>

definition example_starting :: state where
  "example_starting =
     \<lparr> shuttingDown = False, mainWindow = WindowOpen, lcdProcess = None,
       nodeIP = Some ''a.example:46657'',
       connecting = True, seeds = Some [''a.example:26656'', ''b.example:26656''],
       booted = True,
       files = Some (example_dir(''main.log'' \<mapsto> [], ''lcd/lcd.log'' \<mapsto> [])),
       next_id = 3, random_calls = 1, booted_once = [], lost = [], hash_approved = [],
       hash_disapproved = [], init_stdout = [], exit_listeners = [], gateways = [2],
       main_pc = MainAwaitConnect 2 (Some ''a.example:46657''), reconnects = [],
       effects =
         [Spawn 0 [''version''],
          Spawn 1 [''client'', ''init'', ''--home'', ''/home/user/.cosmos-voyager/lcd''],
          Spawn 2 [''rest-server'', ''--port'', ''8998'', ''--home'',
                   ''/home/user/.cosmos-voyager/lcd'', ''--node'', ''a.example:46657'']] \<rparr>"

definition example_connected :: state where
  "example_connected =
     example_starting
       \<lparr> lcdProcess := Some 2, connecting := False, main_pc := MainDone,
         effects := effects example_starting @ [Send ''connected'' (PString ''a.example:46657'')] \<rparr>"

definition example_trust :: state where
  "example_trust =
     \<lparr> shuttingDown = False, mainWindow = WindowOpen, lcdProcess = None,
       nodeIP = Some ''a.example:46657'',
       connecting = True, seeds = Some [''a.example:26656'', ''b.example:26656''],
       booted = True,
       files = Some (example_dir(''main.log'' \<mapsto> [])),
       next_id = 3, random_calls = 1, booted_once = [], lost = [],
       hash_approved =
         [TrustRequest example_hash 2 (JString ''gaia-6002'') ''/home/user/.cosmos-voyager/lcd''],
       hash_disapproved =
         [TrustRequest example_hash 2 (JString ''gaia-6002'') ''/home/user/.cosmos-voyager/lcd''],
       init_stdout = [(2, JString ''gaia-6002'', ''/home/user/.cosmos-voyager/lcd'')],
       exit_listeners = [], gateways = [], main_pc = MainAwaitInit, reconnects = [],
       effects =
         [Spawn 0 [''version''],
          Spawn 1 [''client'', ''init'', ''--home'', ''/home/user/.cosmos-voyager/lcd''],
          Spawn 2 [''client'', ''init'', ''--home'', ''/home/user/.cosmos-voyager/lcd'',
                   ''--chain-id'', ''gaia-6002'', ''--node'', ''a.example:46657''],
          Send ''approve-hash'' (PString example_hash)] \<rparr>"

text \<open>
  A second chunk of output with another fingerprint has registered a second request
  on the same process.
\<close>

definition example_hash2 :: string where
  "example_hash2 = ''89abcdef0123456789abcdef0123456789abcdef''"

definition example_trust2 :: state where
  "example_trust2 =
     example_trust
       \<lparr> hash_approved :=
           [TrustRequest example_hash 2 (JString ''gaia-6002'') ''/home/user/.cosmos-voyager/lcd'',
            TrustRequest example_hash2 2 (JString ''gaia-6002'') ''/home/user/.cosmos-voyager/lcd''],
         hash_disapproved :=
           [TrustRequest example_hash 2 (JString ''gaia-6002'') ''/home/user/.cosmos-voyager/lcd'',
            TrustRequest example_hash2 2 (JString ''gaia-6002'') ''/home/user/.cosmos-voyager/lcd''],
         effects := effects example_trust @ [Send ''approve-hash'' (PString example_hash2)] \<rparr>"

subsection \<open>Kinds of effects\<close>



text \<open>
  The callback of \<^verbatim>\<open>afterBooted\<close> does not throw: it waits for the view to boot, or the
  window is open.
\<close>

definition can_send :: "state \<Rightarrow> bool" where
  "can_send s = (\<not> booted s \<or> mainWindow s = WindowOpen)"

subsection \<open>Reconnect loops\<close>

text \<open>
  At most one call of \<^verbatim>\<open>reconnect\<close> is in flight, none while \<open>connecting\<close> is clear,
  and none before \<^verbatim>\<open>main\<close> has completed its own connection.
\<close>

definition single_reconnect :: "state \<Rightarrow> bool" where
  "single_reconnect s =
     (length (reconnects s) \<le> 1
      \<and> (connecting s \<or> reconnects s = [])
      \<and> (main_pc s = MainDone \<or> (connecting s \<and> reconnects s = [])))"

text \<open>
  The events of one reconnect from a request to the new gateway: the request, \<open>k\<close>
  probes that fail, each followed by its timer, a probe that is answered, and output
  of the new gateway. \<open>n\<close> is the identifier of the first probe.
\<close>

fun failed_probes :: "reqid \<Rightarrow> nat \<Rightarrow> event list" where
  "failed_probes n 0 = []"
| "failed_probes n (Suc k) = HttpResult n False # TimerFired (Suc n) # failed_probes (Suc (Suc n)) k"

definition reconnect_events :: "reqid \<Rightarrow> nat \<Rightarrow> string \<Rightarrow> event list" where
  "reconnect_events n k data =
     IpcReconnect # failed_probes n k @ [HttpResult (n + 2 * k) True, Stdout (Suc (n + 2 * k)) data]"

text \<open>
  \<open>pickNode\<close> cannot throw: a node is forced, or the seeds are a non-empty pool and
  \<^verbatim>\<open>Math.random()\<close> stays in \<open>[0, 1)\<close>.
\<close>

definition pick_ok :: "env \<Rightarrow> string list option \<Rightarrow> bool" where
  "pick_ok env sd =
     (truthy (NODE env)
      \<or> (\<exists>pool. sd = Some pool \<and> pool \<noteq> [] \<and> (\<forall>i. 0 \<le> random env i \<and> random env i < 1)))"

text \<open>
  The result of \<^verbatim>\<open>pickNode(sd)\<close> when \<^verbatim>\<open>Math.random()\<close> has been called \<open>c\<close> times
  before: nothing else of the state matters to it. \<open>node_at\<close> is the node picked (the
  empty string when \<^verbatim>\<open>pickNode\<close> throws), \<open>draws\<close> the number of calls of
  \<^verbatim>\<open>Math.random()\<close> that one \<^verbatim>\<open>pickNode\<close> makes, and \<open>picks env sd c k\<close> the nodes of \<open>k\<close>
  calls of \<^verbatim>\<open>pickNode(sd)\<close> in a row.
\<close>

definition pick_at :: "env \<Rightarrow> string list option \<Rightarrow> nat \<Rightarrow> js_error + string" where
  "pick_at env sd c = fst (pick env sd ((initial None)\<lparr>random_calls := c\<rparr>))"

definition node_at :: "env \<Rightarrow> string list option \<Rightarrow> nat \<Rightarrow> string" where
  "node_at env sd c = (case pick_at env sd c of Inr node \<Rightarrow> node | Inl err \<Rightarrow> [])"

definition draws :: "env \<Rightarrow> nat" where
  "draws env = (if truthy (NODE env) then 0 else 1)"

fun picks :: "env \<Rightarrow> string list option \<Rightarrow> nat \<Rightarrow> nat \<Rightarrow> string list" where
  "picks env sd c 0 = []"
| "picks env sd c (Suc k) = node_at env sd c # picks env sd (c + draws env) k"

text \<open>
  The candidates of \<^verbatim>\<open>pickNode(sd)\<close>: the forced node when one is configured, the
  members of the pool otherwise.
\<close>

definition candidate :: "env \<Rightarrow> string list option \<Rightarrow> string \<Rightarrow> bool" where
  "candidate env sd m =
     (if truthy (NODE env) then NODE env = Some m
      else (case sd of None \<Rightarrow> False | Some pool \<Rightarrow> m \<in> set pool))"

text \<open>
  After a first probe \<open>n\<close> has failed, for each node in turn: a timer of 2000 ms, then
  a probe of the node with a timeout of 3000 ms.
\<close>

fun rounds :: "string list \<Rightarrow> reqid \<Rightarrow> effect list" where
  "rounds [] n = []"
| "rounds (x # xs) n =
     SetTimeout (Suc n) 2000 # HttpGet (Suc (Suc n)) (''http://'' @ x) 3000
       # rounds xs (Suc (Suc n))"

text \<open>
  A reconnect with the parameter \<open>sd\<close> is awaiting the answer of probe \<open>n\<close> while the
  gateway \<open>g\<close> runs and the window is open.
\<close>

definition probing :: "pid \<Rightarrow> reqid \<Rightarrow> string list option \<Rightarrow> state \<Rightarrow> bool" where
  "probing g n sd s =
     ((\<exists>node. reconnects s = [RcProbe n sd node])
      \<and> next_id s = Suc n \<and> connecting s \<and> main_pc s = MainDone \<and> lcdProcess s = Some g
      \<and> booted s \<and> mainWindow s = WindowOpen \<and> (\<forall>l \<in> set (init_stdout s). fst l \<le> n))"

subsection \<open>Answers to trust requests\<close>



subsection \<open>The first connection\<close>

text \<open>
  A \<^verbatim>\<open>connected\<close> message has been issued: sent to the view, or handed to a listener
  that waits for the view to boot, whether this listener still waits or has thrown
  since. \<^verbatim>\<open>connect\<close> issues one when it completes, and nothing else does.
\<close>

definition is_connected_send :: "effect \<Rightarrow> bool" where
  "is_connected_send e = (case e of Send channel v \<Rightarrow> channel = ''connected'' | _ \<Rightarrow> False)"

definition announced :: "state \<Rightarrow> bool" where
  "announced s =
     (list_ex is_connected_send (effects s)
      \<or> list_ex (\<lambda>m. fst m = ''connected'') (booted_once s)
      \<or> list_ex (\<lambda>m. fst m = ''connected'') (lost s))"


section \<open>Properties\<close>

subsection \<open>Choosing a node\<close>

lemma element_at_floor:
  assumes "pool \<noteq> []" "0 \<le> r" "r < 1"
  shows "\<exists>m \<in> set pool. element_at pool \<lfloor>r * real (length pool)\<rfloor> = Some m"
proof -
  let ?n = "length pool"
  have pos: "0 < real ?n" using assms(1) by simp
  have lo: "0 \<le> \<lfloor>r * real ?n\<rfloor>" using assms(2) by simp
  have "r * real ?n < real ?n" using assms(3) pos by simp
  then have hi: "\<lfloor>r * real ?n\<rfloor> < int ?n" by (simp add: floor_less_iff)
  from lo hi have "nat \<lfloor>r * real ?n\<rfloor> < ?n" by linarith
  then have "pool ! nat \<lfloor>r * real ?n\<rfloor> \<in> set pool" by simp
  with lo hi show ?thesis by (simp add: element_at_def)
qed

text \<open>
  C5. With a forced node \<open>n\<close> (a non-empty \<^verbatim>\<open>COSMOS_NODE\<close>), \<open>pickNode\<close> returns the host
  of \<open>n\<close> with the port 46657, whatever the pool and the random number are. Without a
  forced node and for a non-empty pool, it returns the host of a member of the pool
  with the port 46657, for every result of \<^verbatim>\<open>Math.random()\<close> in \<open>[0, 1)\<close>.
\<close>

theorem pickNode_forced_or_member:
  "(forced = Some n \<and> n \<noteq> [] \<longrightarrow>
      pickNode forced r pool = Inr (split_colon_first n @ '':46657''))
   \<and> (\<not> truthy forced \<and> pool \<noteq> [] \<and> 0 \<le> r \<and> r < 1 \<longrightarrow>
      (\<exists>m \<in> set pool. pickNode forced r pool = Inr (split_colon_first m @ '':46657'')))"
proof (intro conjI impI)
  assume "forced = Some n \<and> n \<noteq> []"
  then show "pickNode forced r pool = Inr (split_colon_first n @ '':46657'')"
    by (simp add: pickNode_def truthy_def)
next
  assume h: "\<not> truthy forced \<and> pool \<noteq> [] \<and> 0 \<le> r \<and> r < 1"
  then obtain m where "m \<in> set pool" "element_at pool \<lfloor>r * real (length pool)\<rfloor> = Some m"
    using element_at_floor by blast
  with h show "\<exists>m \<in> set pool. pickNode forced r pool = Inr (split_colon_first m @ '':46657'')"
    by (auto simp: pickNode_def)
qed

theorem pickNode_forced_or_member_witness:
  "pickNode (Some ''n1.example:26656'') (1/2) [''a.com:1''] = Inr ''n1.example:46657''
   \<and> (\<exists>m \<in> set [''a.com:1'', ''b.com:2'']. pickNode None (1/2) [''a.com:1'', ''b.com:2'']
          = Inr (split_colon_first m @ '':46657''))
   \<and> pickNode None (1/2) [''a.com:1'', ''b.com:2''] = Inr ''b.com:46657''"
  using pickNode_forced_or_member [of "Some ''n1.example:26656''" "''n1.example:26656''" "1/2" "[''a.com:1'']"]
        pickNode_forced_or_member [of None "[]" "1/2" "[''a.com:1'', ''b.com:2'']"]
  by (simp add: truthy_def split_colon_first_def pickNode_def element_at_def)

subsection \<open>The checks of the home directory\<close>

lemma main_existing:
  "main env (Some f) =
     (case check_existing env (setupLogging env f) of
        Inl err \<Rightarrow> fail_main env err ((initial (Some f))\<lparr>files := Some (setupLogging env f)\<rparr>)
      | Inr init \<Rightarrow>
          (case (if init then initialize_directory env (setupLogging env f) else Inr (setupLogging env f)) of
             Inl err \<Rightarrow> fail_main env err ((initial (Some f))\<lparr>files := Some (setupLogging env f)\<rparr>)
           | Inr f2 \<Rightarrow>
               (snd (startProcess [''version''] ((initial (Some f))\<lparr>files := Some f2\<rparr>)))
                 \<lparr>main_pc := MainAwaitVersion 0 init\<rparr>))"
  by (simp add: main_def Let_def startProcess_def initial_def split: sum.splits)

lemma setupLogging_apply:
  "name \<noteq> ''main.log'' \<Longrightarrow> setupLogging env f name = f name"
  by (simp add: setupLogging_def ensureFile_def split: option.splits)

lemma consistent_setupLogging:
  "consistentConfigDir (setupLogging env f) = consistentConfigDir f"
  by (simp add: consistentConfigDir_def setupLogging_apply)

lemma check_genesis_setupLogging:
  "check_genesis env (setupLogging env f) = check_genesis env f"
  by (simp add: check_genesis_def readFile_def setupLogging_apply)

lemma check_existing_setupLogging:
  "check_existing env (setupLogging env f) = check_existing env f"
  by (simp add: check_existing_def readFile_def setupLogging_apply consistent_setupLogging
      check_genesis_setupLogging Let_def split: sum.splits option.splits)

lemma check_existing_compatible:
  assumes "consistentConfigDir f" "f ''app_version'' = Some v"
    "semver_diff (semver_parse env) (trim v) (pkg_version env) = Inr d" "d \<noteq> Some ''major''"
  shows "check_existing env f = check_genesis env f"
  using assms by (simp add: check_existing_def readFile_def)

lemma check_genesis_result:
  assumes "f ''genesis.json'' = Some g" "JSON_chain_id env g = Inr cid"
  shows "check_genesis env f =
     (if cid = JString ''local'' then Inr False
      else case readFile (network env) ''genesis.json'' of
             Inl err \<Rightarrow> Inl err
           | Inr c \<Rightarrow> if trim g = trim c then Inr False else Inl GenesisMismatch)"
  using assms by (simp add: check_genesis_def readFile_def split: sum.splits)

text \<open>
  C6. For an existing home directory that has its four files and a compatible version:
  when the chain id of the stored genesis is the string \<open>local\<close>, startup goes on to
  the version of the binary whatever the network bundle holds, even none at all, so
  the contents are not compared. For any other chain id and a bundle with a genesis,
  startup goes on exactly when the two texts are equal after trimming; otherwise
  \<^verbatim>\<open>main\<close> fails with the error \<open>GenesisMismatch\<close>, which is handed to the view,
  and nothing is spawned.
\<close>

theorem genesis_check:
  assumes "consistentConfigDir f" and "f ''app_version'' = Some v"
    and "semver_diff (semver_parse env) (trim v) (pkg_version env) = Inr d" and "d \<noteq> Some ''major''"
    and "f ''genesis.json'' = Some g" and "JSON_chain_id env g = Inr cid"
  shows "(cid = JString ''local'' \<longrightarrow>
            main_pc (main (env\<lparr>network := nw\<rparr>) (Some f)) = MainAwaitVersion 0 False)
     \<and> (cid \<noteq> JString ''local'' \<and> network env = Some nf \<and> nf ''genesis.json'' = Some c \<longrightarrow>
          (if trim g = trim c
           then main_pc (main env (Some f)) = MainAwaitVersion 0 False
           else main_pc (main env (Some f)) = MainFailed GenesisMismatch
                \<and> booted_once (main env (Some f)) = [(''error'', PError GenesisMismatch)]
                \<and> effects (main env (Some f)) = []))"
proof (intro conjI impI)
  assume loc: "cid = JString ''local''"
  let ?env = "env\<lparr>network := nw\<rparr>"
  have "check_existing ?env f = check_genesis ?env f"
    using assms(1-4) by (intro check_existing_compatible[where v=v and d=d]) simp_all
  moreover have "check_genesis ?env f = Inr False"
    using assms(5,6) loc by (simp add: check_genesis_result[where g=g and cid=cid])
  ultimately show "main_pc (main ?env (Some f)) = MainAwaitVersion 0 False"
    by (simp add: main_existing check_existing_setupLogging)
next
  assume h: "cid \<noteq> JString ''local'' \<and> network env = Some nf \<and> nf ''genesis.json'' = Some c"
  have "check_existing env f = check_genesis env f"
    using assms(1-4) by (rule check_existing_compatible)
  moreover have "check_genesis env f = (if trim g = trim c then Inr False else Inl GenesisMismatch)"
    using assms(5,6) h by (simp add: check_genesis_result[where g=g and cid=cid] readFile_def)
  ultimately show "if trim g = trim c
           then main_pc (main env (Some f)) = MainAwaitVersion 0 False
           else main_pc (main env (Some f)) = MainFailed GenesisMismatch
                \<and> booted_once (main env (Some f)) = [(''error'', PError GenesisMismatch)]
                \<and> effects (main env (Some f)) = []"
    by (simp add: main_existing check_existing_setupLogging fail_main_def handleCrash_def
        afterBooted_def initial_def)
qed

lemma ex_parse [simp]:
  "example_parse ''0.6.2'' = Some \<lparr>major = 0, minor = 6, patch = 2, prerelease = []\<rparr>"
  "example_parse ''0.5.0'' = Some \<lparr>major = 0, minor = 5, patch = 0, prerelease = []\<rparr>"
  "example_parse ''1.0.0'' = Some \<lparr>major = 1, minor = 0, patch = 0, prerelease = []\<rparr>"
  "example_parse ''2.0.0-beta.1'' = Some \<lparr>major = 2, minor = 0, patch = 0, prerelease = [''beta'', ''1'']\<rparr>"
  by (simp_all add: example_parse_def)

lemma trim_simps [simp]:
  "trim ''0.5.0'' = ''0.5.0''" "trim ''local '' = ''local''" "trim ''gaia-6001'' = ''gaia-6001''"
  "trim ''gaia-6002'' = ''gaia-6002''" "trim ''1.0.0'' = ''1.0.0''"
  by (simp_all add: trim_def is_whitespace_def)

theorem genesis_check_witness:
  "main_pc (main (example_env\<lparr>network := None\<rparr>)
              (Some (example_files ''0.5.0'' ''local '' ''a.example:26656''))) = MainAwaitVersion 0 False
   \<and> main_pc (main example_env (Some (example_files ''0.5.0'' ''gaia-6001'' ''a.example:26656'')))
       = MainFailed GenesisMismatch"
proof -
  let ?fl = "example_files ''0.5.0'' ''local '' ''a.example:26656''"
  let ?fg = "example_files ''0.5.0'' ''gaia-6001'' ''a.example:26656''"
  have d: "semver_diff (semver_parse example_env) (trim ''0.5.0'') (pkg_version example_env)
             = Inr (Some ''minor'')"
    by (simp add: example_env_def semver_diff_def semver_diff_parsed_def)
  have a: "main_pc (main (example_env\<lparr>network := None\<rparr>) (Some ?fl)) = MainAwaitVersion 0 False"
    using genesis_check [of ?fl "''0.5.0''" example_env "Some ''minor''" "''local ''"
        "JString ''local''" None Map.empty "[]"] d
    by (simp add: example_files_def consistentConfigDir_def example_env_def)
  have b: "main_pc (main example_env (Some ?fg)) = MainFailed GenesisMismatch"
    using genesis_check [of ?fg "''0.5.0''" example_env "Some ''minor''" "''gaia-6001''"
        "JString ''gaia-6001''" None
        "[''genesis.json'' \<mapsto> ''gaia-6002'', ''config.toml'' \<mapsto> ''a.example:26656,b.example:26656'',
          ''gaiaversion.txt'' \<mapsto> ''0.19.0'']" "''gaia-6002''"] d
    by (simp add: example_files_def consistentConfigDir_def example_env_def)
  from a b show ?thesis by simp
qed

lemma semver_diff_major_iff:
  "(semver_diff_parsed v1 v2 = Some ''major'') =
     (major v1 \<noteq> major v2 \<and> prerelease v1 = [] \<and> prerelease v2 = [])"
  by (auto simp: semver_diff_parsed_def Let_def)

lemma version_check:
  assumes "consistentConfigDir f" and "f ''app_version'' = Some v"
    and "semver_parse env (trim v) = Some v1" and "semver_parse env (pkg_version env) = Some v2"
  shows "check_existing env f =
     (if major v1 \<noteq> major v2 \<and> prerelease v1 = [] \<and> prerelease v2 = []
      then Inl (IncompatibleDataVersion (trim v) (pkg_version env))
      else check_genesis env f)"
  using assms
  by (simp add: check_existing_def readFile_def semver_diff_def semver_diff_major_iff)

lemma main_incompatible:
  assumes "check_existing env f = Inl err"
  shows "main_pc (main env (Some f)) = MainFailed err
       \<and> files (main env (Some f)) = Some (setupLogging env f)
       \<and> effects (main env (Some f)) = []
       \<and> booted_once (main env (Some f)) = [(''error'', PError err)]"
  using assms
  by (simp add: main_existing check_existing_setupLogging fail_main_def handleCrash_def
      afterBooted_def initial_def)

text \<open>
  C7. The stored version \<open>1.0.0\<close> and the app version \<open>2.0.0-beta.1\<close> differ in the
  major component, and the check of the home directory succeeds all the same: the
  difference that the semver package reports is \<open>premajor\<close>, which the program does
  not compare with, so \<^verbatim>\<open>main\<close> goes on and spawns \<^verbatim>\<open>gaia version\<close>.
\<close>

theorem version_check_premajor:
  "semver_diff example_parse ''1.0.0'' ''2.0.0-beta.1'' = Inr (Some ''premajor'')
   \<and> check_existing (example_env\<lparr>pkg_version := ''2.0.0-beta.1''\<rparr>)
        (example_files ''1.0.0'' ''gaia-6002'' ''a.example:26656'') = Inr False
   \<and> main_pc (main (example_env\<lparr>pkg_version := ''2.0.0-beta.1''\<rparr>)
        (Some (example_files ''1.0.0'' ''gaia-6002'' ''a.example:26656''))) = MainAwaitVersion 0 False
   \<and> effects (main (example_env\<lparr>pkg_version := ''2.0.0-beta.1''\<rparr>)
        (Some (example_files ''1.0.0'' ''gaia-6002'' ''a.example:26656''))) = [Spawn 0 [''version'']]"
proof -
  let ?env = "example_env\<lparr>pkg_version := ''2.0.0-beta.1''\<rparr>"
  let ?f = "example_files ''1.0.0'' ''gaia-6002'' ''a.example:26656''"
  have d: "semver_diff example_parse ''1.0.0'' ''2.0.0-beta.1'' = Inr (Some ''premajor'')"
    by (simp add: semver_diff_def semver_diff_parsed_def)
  have g: "check_genesis ?env ?f = Inr False"
    by (simp add: check_genesis_def readFile_def example_files_def example_env_def)
  have "check_existing ?env ?f = check_genesis ?env ?f"
    using version_check [of ?f "''1.0.0''" ?env
        "\<lparr>major = 1, minor = 0, patch = 0, prerelease = []\<rparr>"
        "\<lparr>major = 2, minor = 0, patch = 0, prerelease = [''beta'', ''1'']\<rparr>"]
    by (simp add: example_files_def consistentConfigDir_def example_env_def)
  with g have c: "check_existing ?env ?f = Inr False" by simp
  then have "main ?env (Some ?f) =
      (snd (startProcess [''version''] ((initial (Some ?f))\<lparr>files := Some (setupLogging ?env ?f)\<rparr>)))
        \<lparr>main_pc := MainAwaitVersion 0 False\<rparr>"
    by (simp add: main_existing check_existing_setupLogging)
  then have "main_pc (main ?env (Some ?f)) = MainAwaitVersion 0 False"
      "effects (main ?env (Some ?f)) = [Spawn 0 [''version'']]"
    by (simp_all add: startProcess_def emit_def initial_def)
  with d c show ?thesis by simp
qed

text \<open>
  Between two versions without prerelease tags, the check fails exactly for a
  different major component, and then nothing but the log file is touched.
\<close>

lemma version_check_release:
  assumes "consistentConfigDir f" and "f ''app_version'' = Some v"
    and "semver_parse env (trim v) = Some v1" and "semver_parse env (pkg_version env) = Some v2"
    and "prerelease v1 = []" and "prerelease v2 = []"
  shows "(major v1 = major v2 \<longrightarrow> check_existing env f = check_genesis env f)
       \<and> (major v1 \<noteq> major v2 \<longrightarrow>
            main_pc (main env (Some f)) = MainFailed (IncompatibleDataVersion (trim v) (pkg_version env))
            \<and> files (main env (Some f)) = Some (setupLogging env f)
            \<and> effects (main env (Some f)) = [])"
  using version_check [OF assms(1-4)] assms(5,6) main_incompatible [of env f]
  by simp

lemma main_fresh:
  "main env None =
     (case initialize_directory env (setupLogging env Map.empty) of
        Inl err \<Rightarrow> fail_main env err ((initial None)\<lparr>files := Some (setupLogging env Map.empty)\<rparr>)
      | Inr f2 \<Rightarrow>
          (snd (startProcess [''version''] ((initial None)\<lparr>files := Some f2\<rparr>)))
            \<lparr>main_pc := MainAwaitVersion 0 True\<rparr>)"
  by (simp add: main_def Let_def startProcess_def initial_def split: sum.splits)

lemma main_awaits_version:
  assumes "main_pc (main env fs0) = MainAwaitVersion p init"
  shows "effects (main env fs0) = [Spawn p [''version'']] \<and> booted_once (main env fs0) = []
       \<and> \<not> booted (main env fs0) \<and> p = 0 \<and> next_id (main env fs0) = 1"
proof (cases fs0)
  case None
  with assms show ?thesis
    by (auto simp: main_fresh fail_main_def handleCrash_def afterBooted_def startProcess_def
        emit_def initial_def split: sum.splits)
next
  case (Some f)
  with assms show ?thesis
    by (auto simp: main_existing fail_main_def handleCrash_def afterBooted_def startProcess_def
        emit_def initial_def split: sum.splits if_splits)
qed

text \<open>
  C4 (amended). When \<^verbatim>\<open>main\<close> has passed the checks of the home directory and awaits
  the version of the binary, and the version matches and the files parse, a
  configuration whose seeds are empty makes startup fail with the error \<open>NoSeeds\<close>,
  which is handed to the view. The only process spawned up to then is
  \<^verbatim>\<open>gaia version\<close>: no initialisation and no gateway process.
\<close>

theorem no_seeds_after_version:
  assumes "main_pc (main env fs0) = MainAwaitVersion p init"
    and "main_read_config env data (main env fs0) = Inr (cid, seedsText)"
    and "parse_seeds seedsText = []"
  shows "main_pc (step env (Stdout p data) (main env fs0)) = MainFailed NoSeeds
       \<and> effects (step env (Stdout p data) (main env fs0)) = [Spawn p [''version'']]
       \<and> booted_once (step env (Stdout p data) (main env fs0)) = [(''error'', PError NoSeeds)]"
proof -
  have "step env (Stdout p data) (main env fs0)
          = fail_main env NoSeeds ((main env fs0)\<lparr>seeds := Some []\<rparr>)"
    using assms by (simp add: stdout_data_def main_resume_version_def)
  then show ?thesis
    using main_awaits_version [OF assms(1)]
    by (simp add: fail_main_def handleCrash_def afterBooted_def)
qed

lemma trim_version [simp]: "trim ''0.19.0'' = ''0.19.0''" "trim ''0.6.2'' = ''0.6.2''"
  by (simp_all add: trim_def is_whitespace_def)

lemma example_main_empty_seeds:
  "main example_env (Some (example_files ''0.6.2'' ''gaia-6002'' '','')) =
     (snd (startProcess [''version'']
        ((initial (Some (example_files ''0.6.2'' ''gaia-6002'' '','')))
           \<lparr>files := Some (setupLogging example_env (example_files ''0.6.2'' ''gaia-6002'' '',''))\<rparr>)))
       \<lparr>main_pc := MainAwaitVersion 0 False\<rparr>"
proof -
  have "check_existing example_env (example_files ''0.6.2'' ''gaia-6002'' '','') = Inr False"
    by (simp add: check_existing_def check_genesis_def readFile_def consistentConfigDir_def
        example_files_def example_env_def semver_diff_def semver_diff_parsed_def)
  then show ?thesis by (simp add: main_existing check_existing_setupLogging)
qed

text \<open>
  C4 as stated fails: with the seeds \<open>'',''\<close> startup ends in \<open>NoSeeds\<close> after
  \<^verbatim>\<open>gaia version\<close> has been spawned.
\<close>

theorem spawn_before_seeds_counterexample:
  "main_pc (run example_env [Stdout 0 ''0.19.0'']
       (main example_env (Some (example_files ''0.6.2'' ''gaia-6002'' '','')))) = MainFailed NoSeeds
   \<and> effects (run example_env [Stdout 0 ''0.19.0'']
       (main example_env (Some (example_files ''0.6.2'' ''gaia-6002'' '','')))) = [Spawn 0 [''version'']]"
  unfolding run_def example_main_empty_seeds
  by (simp add: stdout_data_def main_resume_version_def
      main_read_config_def readFile_def startProcess_def emit_def initial_def setupLogging_def
      ensureFile_def example_files_def example_env_def parse_seeds_def fail_main_def
      handleCrash_def afterBooted_def)

theorem no_seeds_after_version_witness:
  "main_pc (step example_env (Stdout 0 ''0.19.0'')
       (main example_env (Some (example_files ''0.6.2'' ''gaia-6002'' '','')))) = MainFailed NoSeeds
   \<and> effects (step example_env (Stdout 0 ''0.19.0'')
       (main example_env (Some (example_files ''0.6.2'' ''gaia-6002'' '','')))) = [Spawn 0 [''version'']]"
proof -
  let ?s = "main example_env (Some (example_files ''0.6.2'' ''gaia-6002'' '',''))"
  have a: "main_pc ?s = MainAwaitVersion 0 False"
    by (simp add: example_main_empty_seeds)
  have b: "main_read_config example_env ''0.19.0'' ?s = Inr (JString ''gaia-6002'', '','')"
    unfolding example_main_empty_seeds
    by (simp add: main_read_config_def readFile_def startProcess_def
        emit_def initial_def setupLogging_def ensureFile_def example_files_def example_env_def)
  have c: "parse_seeds '','' = []" by (simp add: parse_seeds_def)
  from no_seeds_after_version [OF a b c] show ?thesis by simp
qed

subsection \<open>What each helper leaves unchanged\<close>

lemma send_open: "mainWindow s = WindowOpen \<Longrightarrow> send m s = Inr (emit (Send (fst m) (snd m)) s)"
  by (simp add: send_def)

lemma send_closed: "mainWindow s \<noteq> WindowOpen \<Longrightarrow> \<exists>err. send m s = Inl err"
  by (cases "mainWindow s") (simp_all add: send_def)

lemma afterBooted_can_send:
  "can_send s \<Longrightarrow>
   afterBooted m s =
     Inr (if booted s then emit (Send (fst m) (snd m)) s else s\<lparr>booted_once := booted_once s @ [m]\<rparr>)"
  by (auto simp: can_send_def afterBooted_def send_def)

lemma afterBooted_cannot: "\<not> can_send s \<Longrightarrow> \<exists>err. afterBooted m s = Inl err"
  using send_closed [of s m] by (simp add: can_send_def afterBooted_def)

lemma crash_cannot:
  assumes "\<not> can_send s"
  shows "unhandledRejection env err s = s" and "uncaughtException env err s = s"
proof -
  from afterBooted_cannot [OF assms] obtain err' where "handleCrash err s = Inl err'"
    unfolding handleCrash_def by blast
  then show "unhandledRejection env err s = s" "uncaughtException env err s = s"
    by (simp_all add: unhandledRejection_def uncaughtException_def)
qed

lemma crash_can_send:
  assumes "can_send s"
  shows "unhandledRejection env err s =
           (if TEST env then s
            else if booted s then emit (Send ''error'' (PError err)) s
            else s\<lparr>booted_once := booted_once s @ [(''error'', PError err)]\<rparr>)"
  using afterBooted_can_send [OF assms, of "(''error'', PError err)"]
  by (simp add: unhandledRejection_def handleCrash_def)

lemma gateway_exit_can_send:
  assumes "can_send s"
  shows "gateway_exit env s =
     (if booted s
      then emit (Send ''error'' (PError (Error ''The Gaia REST-server (LCD) exited unplanned''))) s
      else s\<lparr>booted_once := booted_once s
             @ [(''error'', PError (Error ''The Gaia REST-server (LCD) exited unplanned''))]\<rparr>)"
  using afterBooted_can_send [OF assms] by (simp add: gateway_exit_def)

lemma gateway_exit_cannot:
  assumes "\<not> can_send s"
  shows "gateway_exit env s = s"
proof -
  from afterBooted_cannot [OF assms] obtain err where
    "afterBooted (''error'', PError (Error ''The Gaia REST-server (LCD) exited unplanned'')) s = Inl err"
    by blast
  then show ?thesis by (simp add: gateway_exit_def crash_cannot [OF assms])
qed

lemma can_send_lcdProcess [simp]: "can_send (s\<lparr>lcdProcess := x\<rparr>) = can_send s"
  by (simp add: can_send_def)

lemma can_send_main_pc [simp]: "can_send (s\<lparr>main_pc := x\<rparr>) = can_send s"
  by (simp add: can_send_def)

lemma can_send_reconnects [simp]: "can_send (s\<lparr>reconnects := x\<rparr>) = can_send s"
  by (simp add: can_send_def)

lemma connect_resume_can_send:
  assumes "can_send s"
  shows "connect_resume p node s =
     (None,
      (if booted s then emit (Send ''connected'' (payload_of node)) (s\<lparr>lcdProcess := Some p\<rparr>)
       else s\<lparr>lcdProcess := Some p, booted_once := booted_once s @ [(''connected'', payload_of node)]\<rparr>)
        \<lparr>connecting := False\<rparr>)"
proof -
  have "can_send (s\<lparr>lcdProcess := Some p\<rparr>)" using assms by simp
  from afterBooted_can_send [OF this] show ?thesis
    by (simp add: connect_resume_def)
qed

lemma connect_resume_cannot:
  assumes "\<not> can_send s"
  shows "\<exists>err. connect_resume p node s = (Some err, s\<lparr>lcdProcess := Some p\<rparr>)"
proof -
  have "\<not> can_send (s\<lparr>lcdProcess := Some p\<rparr>)" using assms by simp
  from afterBooted_cannot [OF this] obtain err where
    "afterBooted (''connected'', payload_of node) (s\<lparr>lcdProcess := Some p\<rparr>) = Inl err" by blast
  then show ?thesis by (simp add: connect_resume_def)
qed

lemma fail_main_can_send:
  assumes "can_send s"
  shows "fail_main env err s =
     (if booted s then emit (Send ''error'' (PError err)) (s\<lparr>main_pc := MainFailed err\<rparr>)
      else s\<lparr>main_pc := MainFailed err, booted_once := booted_once s @ [(''error'', PError err)]\<rparr>)"
proof -
  have "can_send (s\<lparr>main_pc := MainFailed err\<rparr>)" using assms by simp
  from afterBooted_can_send [OF this] show ?thesis
    by (simp add: fail_main_def handleCrash_def)
qed

lemma fail_main_cannot:
  assumes "\<not> can_send s"
  shows "fail_main env err s = s\<lparr>main_pc := MainFailed err\<rparr>"
proof -
  have c: "\<not> can_send (s\<lparr>main_pc := MainFailed err\<rparr>)" using assms by simp
  from afterBooted_cannot [OF c] obtain err' where
    "handleCrash err (s\<lparr>main_pc := MainFailed err\<rparr>) = Inl err'"
    unfolding handleCrash_def by blast
  then show ?thesis by (simp add: fail_main_def crash_cannot [OF c])
qed

lemma emit_fields [simp]:
  "shuttingDown (emit e s) = shuttingDown s"
  "mainWindow (emit e s) = mainWindow s"
  "lcdProcess (emit e s) = lcdProcess s"
  "nodeIP (emit e s) = nodeIP s"
  "connecting (emit e s) = connecting s"
  "seeds (emit e s) = seeds s"
  "booted (emit e s) = booted s"
  "files (emit e s) = files s"
  "next_id (emit e s) = next_id s"
  "random_calls (emit e s) = random_calls s"
  "booted_once (emit e s) = booted_once s"
  "lost (emit e s) = lost s"
  "hash_approved (emit e s) = hash_approved s"
  "hash_disapproved (emit e s) = hash_disapproved s"
  "init_stdout (emit e s) = init_stdout s"
  "exit_listeners (emit e s) = exit_listeners s"
  "gateways (emit e s) = gateways s"
  "main_pc (emit e s) = main_pc s"
  "reconnects (emit e s) = reconnects s"
  by (simp_all add: emit_def)

lemma unhandledRejection_fields [simp]:
  "shuttingDown (unhandledRejection env err s) = shuttingDown s"
  "mainWindow (unhandledRejection env err s) = mainWindow s"
  "lcdProcess (unhandledRejection env err s) = lcdProcess s"
  "nodeIP (unhandledRejection env err s) = nodeIP s"
  "connecting (unhandledRejection env err s) = connecting s"
  "seeds (unhandledRejection env err s) = seeds s"
  "booted (unhandledRejection env err s) = booted s"
  "files (unhandledRejection env err s) = files s"
  "next_id (unhandledRejection env err s) = next_id s"
  "random_calls (unhandledRejection env err s) = random_calls s"
  "lost (unhandledRejection env err s) = lost s"
  "hash_approved (unhandledRejection env err s) = hash_approved s"
  "hash_disapproved (unhandledRejection env err s) = hash_disapproved s"
  "init_stdout (unhandledRejection env err s) = init_stdout s"
  "exit_listeners (unhandledRejection env err s) = exit_listeners s"
  "gateways (unhandledRejection env err s) = gateways s"
  "main_pc (unhandledRejection env err s) = main_pc s"
  "reconnects (unhandledRejection env err s) = reconnects s"
  by (simp_all add: unhandledRejection_def uncaughtException_def handleCrash_def afterBooted_def send_def emit_def split: window.splits)

lemma uncaughtException_fields [simp]:
  "shuttingDown (uncaughtException env err s) = shuttingDown s"
  "mainWindow (uncaughtException env err s) = mainWindow s"
  "lcdProcess (uncaughtException env err s) = lcdProcess s"
  "nodeIP (uncaughtException env err s) = nodeIP s"
  "connecting (uncaughtException env err s) = connecting s"
  "seeds (uncaughtException env err s) = seeds s"
  "booted (uncaughtException env err s) = booted s"
  "files (uncaughtException env err s) = files s"
  "next_id (uncaughtException env err s) = next_id s"
  "random_calls (uncaughtException env err s) = random_calls s"
  "lost (uncaughtException env err s) = lost s"
  "hash_approved (uncaughtException env err s) = hash_approved s"
  "hash_disapproved (uncaughtException env err s) = hash_disapproved s"
  "init_stdout (uncaughtException env err s) = init_stdout s"
  "exit_listeners (uncaughtException env err s) = exit_listeners s"
  "gateways (uncaughtException env err s) = gateways s"
  "main_pc (uncaughtException env err s) = main_pc s"
  "reconnects (uncaughtException env err s) = reconnects s"
  by (simp_all add: unhandledRejection_def uncaughtException_def handleCrash_def afterBooted_def send_def emit_def split: window.splits)

lemma gateway_exit_fields [simp]:
  "shuttingDown (gateway_exit env s) = shuttingDown s"
  "mainWindow (gateway_exit env s) = mainWindow s"
  "lcdProcess (gateway_exit env s) = lcdProcess s"
  "nodeIP (gateway_exit env s) = nodeIP s"
  "connecting (gateway_exit env s) = connecting s"
  "seeds (gateway_exit env s) = seeds s"
  "booted (gateway_exit env s) = booted s"
  "files (gateway_exit env s) = files s"
  "next_id (gateway_exit env s) = next_id s"
  "random_calls (gateway_exit env s) = random_calls s"
  "lost (gateway_exit env s) = lost s"
  "hash_approved (gateway_exit env s) = hash_approved s"
  "hash_disapproved (gateway_exit env s) = hash_disapproved s"
  "init_stdout (gateway_exit env s) = init_stdout s"
  "exit_listeners (gateway_exit env s) = exit_listeners s"
  "gateways (gateway_exit env s) = gateways s"
  "main_pc (gateway_exit env s) = main_pc s"
  "reconnects (gateway_exit env s) = reconnects s"
  by (simp_all add: gateway_exit_def unhandledRejection_def uncaughtException_def handleCrash_def afterBooted_def send_def emit_def split: window.splits)

lemma logProcess_fields [simp]:
  "shuttingDown (logProcess name s) = shuttingDown s"
  "mainWindow (logProcess name s) = mainWindow s"
  "lcdProcess (logProcess name s) = lcdProcess s"
  "nodeIP (logProcess name s) = nodeIP s"
  "connecting (logProcess name s) = connecting s"
  "seeds (logProcess name s) = seeds s"
  "booted (logProcess name s) = booted s"
  "next_id (logProcess name s) = next_id s"
  "random_calls (logProcess name s) = random_calls s"
  "booted_once (logProcess name s) = booted_once s"
  "lost (logProcess name s) = lost s"
  "hash_approved (logProcess name s) = hash_approved s"
  "hash_disapproved (logProcess name s) = hash_disapproved s"
  "init_stdout (logProcess name s) = init_stdout s"
  "exit_listeners (logProcess name s) = exit_listeners s"
  "gateways (logProcess name s) = gateways s"
  "main_pc (logProcess name s) = main_pc s"
  "reconnects (logProcess name s) = reconnects s"
  "effects (logProcess name s) = effects s"
  by (simp_all add: logProcess_def)

lemma startProcess_fields [simp]:
  "shuttingDown (snd (startProcess args s)) = shuttingDown s"
  "mainWindow (snd (startProcess args s)) = mainWindow s"
  "lcdProcess (snd (startProcess args s)) = lcdProcess s"
  "nodeIP (snd (startProcess args s)) = nodeIP s"
  "connecting (snd (startProcess args s)) = connecting s"
  "seeds (snd (startProcess args s)) = seeds s"
  "booted (snd (startProcess args s)) = booted s"
  "files (snd (startProcess args s)) = files s"
  "random_calls (snd (startProcess args s)) = random_calls s"
  "booted_once (snd (startProcess args s)) = booted_once s"
  "lost (snd (startProcess args s)) = lost s"
  "hash_approved (snd (startProcess args s)) = hash_approved s"
  "hash_disapproved (snd (startProcess args s)) = hash_disapproved s"
  "init_stdout (snd (startProcess args s)) = init_stdout s"
  "exit_listeners (snd (startProcess args s)) = exit_listeners s"
  "gateways (snd (startProcess args s)) = gateways s"
  "main_pc (snd (startProcess args s)) = main_pc s"
  "reconnects (snd (startProcess args s)) = reconnects s"
  by (simp_all add: startProcess_def emit_def)

lemma startLCD_fields [simp]:
  "shuttingDown (snd (startLCD env hm node s)) = shuttingDown s"
  "mainWindow (snd (startLCD env hm node s)) = mainWindow s"
  "lcdProcess (snd (startLCD env hm node s)) = lcdProcess s"
  "nodeIP (snd (startLCD env hm node s)) = nodeIP s"
  "connecting (snd (startLCD env hm node s)) = connecting s"
  "seeds (snd (startLCD env hm node s)) = seeds s"
  "booted (snd (startLCD env hm node s)) = booted s"
  "random_calls (snd (startLCD env hm node s)) = random_calls s"
  "booted_once (snd (startLCD env hm node s)) = booted_once s"
  "lost (snd (startLCD env hm node s)) = lost s"
  "hash_approved (snd (startLCD env hm node s)) = hash_approved s"
  "hash_disapproved (snd (startLCD env hm node s)) = hash_disapproved s"
  "init_stdout (snd (startLCD env hm node s)) = init_stdout s"
  "exit_listeners (snd (startLCD env hm node s)) = exit_listeners s"
  "main_pc (snd (startLCD env hm node s)) = main_pc s"
  "reconnects (snd (startLCD env hm node s)) = reconnects s"
  by (simp_all add: startLCD_def startProcess_def logProcess_def emit_def)

lemma connect_fields [simp]:
  "shuttingDown (snd (connect env node s)) = shuttingDown s"
  "mainWindow (snd (connect env node s)) = mainWindow s"
  "lcdProcess (snd (connect env node s)) = lcdProcess s"
  "nodeIP (snd (connect env node s)) = nodeIP s"
  "connecting (snd (connect env node s)) = connecting s"
  "seeds (snd (connect env node s)) = seeds s"
  "booted (snd (connect env node s)) = booted s"
  "random_calls (snd (connect env node s)) = random_calls s"
  "booted_once (snd (connect env node s)) = booted_once s"
  "lost (snd (connect env node s)) = lost s"
  "hash_approved (snd (connect env node s)) = hash_approved s"
  "hash_disapproved (snd (connect env node s)) = hash_disapproved s"
  "init_stdout (snd (connect env node s)) = init_stdout s"
  "exit_listeners (snd (connect env node s)) = exit_listeners s"
  "main_pc (snd (connect env node s)) = main_pc s"
  "reconnects (snd (connect env node s)) = reconnects s"
  by (simp_all add: connect_def startLCD_def startProcess_def logProcess_def emit_def)

lemma pick_fields [simp]:
  "shuttingDown (snd (pick env sd s)) = shuttingDown s"
  "mainWindow (snd (pick env sd s)) = mainWindow s"
  "lcdProcess (snd (pick env sd s)) = lcdProcess s"
  "nodeIP (snd (pick env sd s)) = nodeIP s"
  "connecting (snd (pick env sd s)) = connecting s"
  "seeds (snd (pick env sd s)) = seeds s"
  "booted (snd (pick env sd s)) = booted s"
  "files (snd (pick env sd s)) = files s"
  "next_id (snd (pick env sd s)) = next_id s"
  "booted_once (snd (pick env sd s)) = booted_once s"
  "lost (snd (pick env sd s)) = lost s"
  "hash_approved (snd (pick env sd s)) = hash_approved s"
  "hash_disapproved (snd (pick env sd s)) = hash_disapproved s"
  "init_stdout (snd (pick env sd s)) = init_stdout s"
  "exit_listeners (snd (pick env sd s)) = exit_listeners s"
  "gateways (snd (pick env sd s)) = gateways s"
  "main_pc (snd (pick env sd s)) = main_pc s"
  "reconnects (snd (pick env sd s)) = reconnects s"
  "effects (snd (pick env sd s)) = effects s"
  by (simp_all add: pick_def split: option.splits)

lemma initLCD_fields [simp]:
  "shuttingDown (initLCD cid hm node s) = shuttingDown s"
  "mainWindow (initLCD cid hm node s) = mainWindow s"
  "lcdProcess (initLCD cid hm node s) = lcdProcess s"
  "nodeIP (initLCD cid hm node s) = nodeIP s"
  "connecting (initLCD cid hm node s) = connecting s"
  "seeds (initLCD cid hm node s) = seeds s"
  "booted (initLCD cid hm node s) = booted s"
  "files (initLCD cid hm node s) = files s"
  "random_calls (initLCD cid hm node s) = random_calls s"
  "booted_once (initLCD cid hm node s) = booted_once s"
  "lost (initLCD cid hm node s) = lost s"
  "hash_approved (initLCD cid hm node s) = hash_approved s"
  "hash_disapproved (initLCD cid hm node s) = hash_disapproved s"
  "exit_listeners (initLCD cid hm node s) = exit_listeners s"
  "gateways (initLCD cid hm node s) = gateways s"
  "main_pc (initLCD cid hm node s) = main_pc s"
  "reconnects (initLCD cid hm node s) = reconnects s"
  by (simp_all add: initLCD_def startProcess_def emit_def)

lemma handleHashVerification_fields [simp]:
  "shuttingDown (handleHashVerification tr s) = shuttingDown s"
  "mainWindow (handleHashVerification tr s) = mainWindow s"
  "lcdProcess (handleHashVerification tr s) = lcdProcess s"
  "nodeIP (handleHashVerification tr s) = nodeIP s"
  "connecting (handleHashVerification tr s) = connecting s"
  "seeds (handleHashVerification tr s) = seeds s"
  "booted (handleHashVerification tr s) = booted s"
  "files (handleHashVerification tr s) = files s"
  "next_id (handleHashVerification tr s) = next_id s"
  "random_calls (handleHashVerification tr s) = random_calls s"
  "booted_once (handleHashVerification tr s) = booted_once s"
  "lost (handleHashVerification tr s) = lost s"
  "init_stdout (handleHashVerification tr s) = init_stdout s"
  "exit_listeners (handleHashVerification tr s) = exit_listeners s"
  "gateways (handleHashVerification tr s) = gateways s"
  "main_pc (handleHashVerification tr s) = main_pc s"
  "reconnects (handleHashVerification tr s) = reconnects s"
  "effects (handleHashVerification tr s) = effects s"
  by (simp_all add: handleHashVerification_def)

lemma fail_main_fields [simp]:
  "shuttingDown (fail_main env err s) = shuttingDown s"
  "mainWindow (fail_main env err s) = mainWindow s"
  "lcdProcess (fail_main env err s) = lcdProcess s"
  "nodeIP (fail_main env err s) = nodeIP s"
  "connecting (fail_main env err s) = connecting s"
  "seeds (fail_main env err s) = seeds s"
  "booted (fail_main env err s) = booted s"
  "files (fail_main env err s) = files s"
  "next_id (fail_main env err s) = next_id s"
  "random_calls (fail_main env err s) = random_calls s"
  "lost (fail_main env err s) = lost s"
  "hash_approved (fail_main env err s) = hash_approved s"
  "hash_disapproved (fail_main env err s) = hash_disapproved s"
  "init_stdout (fail_main env err s) = init_stdout s"
  "exit_listeners (fail_main env err s) = exit_listeners s"
  "gateways (fail_main env err s) = gateways s"
  "reconnects (fail_main env err s) = reconnects s"
  by (simp_all add: fail_main_def unhandledRejection_def uncaughtException_def handleCrash_def afterBooted_def send_def emit_def split: window.splits)

lemma connect_resume_fields [simp]:
  "shuttingDown (snd (connect_resume p node s)) = shuttingDown s"
  "mainWindow (snd (connect_resume p node s)) = mainWindow s"
  "nodeIP (snd (connect_resume p node s)) = nodeIP s"
  "seeds (snd (connect_resume p node s)) = seeds s"
  "booted (snd (connect_resume p node s)) = booted s"
  "files (snd (connect_resume p node s)) = files s"
  "next_id (snd (connect_resume p node s)) = next_id s"
  "random_calls (snd (connect_resume p node s)) = random_calls s"
  "lost (snd (connect_resume p node s)) = lost s"
  "hash_approved (snd (connect_resume p node s)) = hash_approved s"
  "hash_disapproved (snd (connect_resume p node s)) = hash_disapproved s"
  "init_stdout (snd (connect_resume p node s)) = init_stdout s"
  "exit_listeners (snd (connect_resume p node s)) = exit_listeners s"
  "gateways (snd (connect_resume p node s)) = gateways s"
  "main_pc (snd (connect_resume p node s)) = main_pc s"
  "reconnects (snd (connect_resume p node s)) = reconnects s"
  by (simp_all add: connect_resume_def afterBooted_def send_def emit_def split: window.splits)

lemma shutdown_fields [simp]:
  "nodeIP (shutdown s) = nodeIP s"
  "connecting (shutdown s) = connecting s"
  "seeds (shutdown s) = seeds s"
  "booted (shutdown s) = booted s"
  "files (shutdown s) = files s"
  "next_id (shutdown s) = next_id s"
  "random_calls (shutdown s) = random_calls s"
  "booted_once (shutdown s) = booted_once s"
  "lost (shutdown s) = lost s"
  "hash_approved (shutdown s) = hash_approved s"
  "hash_disapproved (shutdown s) = hash_disapproved s"
  "init_stdout (shutdown s) = init_stdout s"
  "exit_listeners (shutdown s) = exit_listeners s"
  "gateways (shutdown s) = gateways s"
  "main_pc (shutdown s) = main_pc s"
  "reconnects (shutdown s) = reconnects s"
  by (simp_all add: shutdown_def emit_def split: option.splits)

lemma createWindow_fields [simp]:
  "shuttingDown (createWindow s) = shuttingDown s"
  "lcdProcess (createWindow s) = lcdProcess s"
  "nodeIP (createWindow s) = nodeIP s"
  "connecting (createWindow s) = connecting s"
  "seeds (createWindow s) = seeds s"
  "booted (createWindow s) = booted s"
  "files (createWindow s) = files s"
  "next_id (createWindow s) = next_id s"
  "random_calls (createWindow s) = random_calls s"
  "booted_once (createWindow s) = booted_once s"
  "lost (createWindow s) = lost s"
  "hash_approved (createWindow s) = hash_approved s"
  "hash_disapproved (createWindow s) = hash_disapproved s"
  "init_stdout (createWindow s) = init_stdout s"
  "exit_listeners (createWindow s) = exit_listeners s"
  "gateways (createWindow s) = gateways s"
  "main_pc (createWindow s) = main_pc s"
  "reconnects (createWindow s) = reconnects s"
  "effects (createWindow s) = effects s"
  by (simp_all add: createWindow_def)

lemma activate_fields [simp]:
  "shuttingDown (activate s) = shuttingDown s"
  "lcdProcess (activate s) = lcdProcess s"
  "nodeIP (activate s) = nodeIP s"
  "connecting (activate s) = connecting s"
  "seeds (activate s) = seeds s"
  "booted (activate s) = booted s"
  "files (activate s) = files s"
  "next_id (activate s) = next_id s"
  "random_calls (activate s) = random_calls s"
  "booted_once (activate s) = booted_once s"
  "lost (activate s) = lost s"
  "hash_approved (activate s) = hash_approved s"
  "hash_disapproved (activate s) = hash_disapproved s"
  "init_stdout (activate s) = init_stdout s"
  "exit_listeners (activate s) = exit_listeners s"
  "gateways (activate s) = gateways s"
  "main_pc (activate s) = main_pc s"
  "reconnects (activate s) = reconnects s"
  "effects (activate s) = effects s"
  by (simp_all add: activate_def createWindow_def)

lemma window_closed_fields [simp]:
  "nodeIP (window_closed s) = nodeIP s"
  "connecting (window_closed s) = connecting s"
  "seeds (window_closed s) = seeds s"
  "booted (window_closed s) = booted s"
  "files (window_closed s) = files s"
  "next_id (window_closed s) = next_id s"
  "random_calls (window_closed s) = random_calls s"
  "booted_once (window_closed s) = booted_once s"
  "lost (window_closed s) = lost s"
  "hash_approved (window_closed s) = hash_approved s"
  "hash_disapproved (window_closed s) = hash_disapproved s"
  "init_stdout (window_closed s) = init_stdout s"
  "exit_listeners (window_closed s) = exit_listeners s"
  "gateways (window_closed s) = gateways s"
  "main_pc (window_closed s) = main_pc s"
  "reconnects (window_closed s) = reconnects s"
  by (simp_all add: window_closed_def shutdown_def emit_def split: option.splits)

lemma booted_listeners_fields [simp]:
  "shuttingDown (booted_listeners env ms s) = shuttingDown s"
  "mainWindow (booted_listeners env ms s) = mainWindow s"
  "lcdProcess (booted_listeners env ms s) = lcdProcess s"
  "nodeIP (booted_listeners env ms s) = nodeIP s"
  "connecting (booted_listeners env ms s) = connecting s"
  "seeds (booted_listeners env ms s) = seeds s"
  "booted (booted_listeners env ms s) = booted s"
  "files (booted_listeners env ms s) = files s"
  "next_id (booted_listeners env ms s) = next_id s"
  "random_calls (booted_listeners env ms s) = random_calls s"
  "hash_approved (booted_listeners env ms s) = hash_approved s"
  "hash_disapproved (booted_listeners env ms s) = hash_disapproved s"
  "init_stdout (booted_listeners env ms s) = init_stdout s"
  "exit_listeners (booted_listeners env ms s) = exit_listeners s"
  "gateways (booted_listeners env ms s) = gateways s"
  "main_pc (booted_listeners env ms s) = main_pc s"
  "reconnects (booted_listeners env ms s) = reconnects s"
  by (induction ms arbitrary: s) (simp_all add: send_def emit_def split: window.splits)

lemma booted_message_fields [simp]:
  "shuttingDown (booted_message env s) = shuttingDown s"
  "mainWindow (booted_message env s) = mainWindow s"
  "lcdProcess (booted_message env s) = lcdProcess s"
  "nodeIP (booted_message env s) = nodeIP s"
  "connecting (booted_message env s) = connecting s"
  "seeds (booted_message env s) = seeds s"
  "files (booted_message env s) = files s"
  "next_id (booted_message env s) = next_id s"
  "random_calls (booted_message env s) = random_calls s"
  "hash_approved (booted_message env s) = hash_approved s"
  "hash_disapproved (booted_message env s) = hash_disapproved s"
  "init_stdout (booted_message env s) = init_stdout s"
  "exit_listeners (booted_message env s) = exit_listeners s"
  "gateways (booted_message env s) = gateways s"
  "main_pc (booted_message env s) = main_pc s"
  "reconnects (booted_message env s) = reconnects s"
  by (simp_all add: booted_message_def)

lemma fail_main_main_pc [simp]: "main_pc (fail_main env err s) = MainFailed err"
  by (cases "can_send s") (simp_all add: fail_main_can_send fail_main_cannot emit_def)

lemma init_settled_other: "main_pc s \<noteq> MainAwaitInit \<Longrightarrow> init_settled env outcome s = s"
  by (cases "main_pc s") (simp_all add: init_settled_def)

lemma approved_main_pc [simp]: "main_pc (approved tr s) = main_pc s"
  by (simp add: approved_def)

lemma rejected_main_pc: "main_pc s \<noteq> MainAwaitInit \<Longrightarrow> main_pc (rejected env tr s) = main_pc s"
  by (simp add: rejected_def Let_def init_settled_other split_def split: sum.splits)

lemma settle_main_pc: "main_pc s \<noteq> MainAwaitInit \<Longrightarrow> main_pc (settle env h s tr) = main_pc s"
  by (simp add: settle_def rejected_main_pc)

lemma foldl_settle_main_pc:
  "main_pc s \<noteq> MainAwaitInit \<Longrightarrow> main_pc (foldl (settle env h) s trs) = main_pc s"
  by (induction trs arbitrary: s) (simp_all add: settle_main_pc)

lemma foldl_rejected_main_pc:
  "main_pc s \<noteq> MainAwaitInit \<Longrightarrow>
   main_pc (foldl (\<lambda>s' tr'. rejected env tr' s') s trs) = main_pc s"
  by (induction trs arbitrary: s) (simp_all add: rejected_main_pc)

lemma hash_approved_message_main_pc:
  "main_pc s \<noteq> MainAwaitInit \<Longrightarrow> main_pc (hash_approved_message env h s) = main_pc s"
  by (simp add: hash_approved_message_def foldl_settle_main_pc settle_main_pc split: list.splits)

lemma hash_disapproved_message_main_pc:
  "main_pc s \<noteq> MainAwaitInit \<Longrightarrow> main_pc (hash_disapproved_message env s) = main_pc s"
  by (simp add: hash_disapproved_message_def foldl_rejected_main_pc rejected_main_pc split: list.splits)

lemma foldl_exit_other:
  "main_pc s \<noteq> MainAwaitInit \<Longrightarrow>
   foldl (\<lambda>s' q. if q = p then init_settled env (expectCleanExit code s') s' else s') s qs = s"
  by (induction qs arbitrary: s) (simp_all add: init_settled_other)

lemma child_exit_other:
  "main_pc s \<noteq> MainAwaitInit \<Longrightarrow>
   child_exit env p code s = (if p \<in> set (gateways s) then gateway_exit env s else s)"
  by (simp add: child_exit_def foldl_exit_other)

lemma reconnect_round_main_pc [simp]: "main_pc (reconnect_round env sd s) = main_pc s"
  by (simp add: reconnect_round_def split_def split: sum.splits)

lemma reconnect_main_pc [simp]: "main_pc (reconnect env s) = main_pc s"
  by (simp add: reconnect_def)

lemma reconnect_finish_main_pc [simp]: "main_pc (reconnect_finish env s) = main_pc s"
  by (simp add: reconnect_finish_def split_def Let_def split: option.splits)

lemma probe_result_main_pc [simp]: "main_pc (probe_result env r alive s) = main_pc s"
  by (simp add: probe_result_def Let_def split: option.splits reconnect_pc.splits)

lemma timer_fired_main_pc [simp]: "main_pc (timer_fired env r s) = main_pc s"
  by (simp add: timer_fired_def split: option.splits reconnect_pc.splits)

lemma init_output_main_pc [simp]: "main_pc (init_output env l data s) = main_pc s"
  by (simp add: init_output_def afterBooted_def send_def split: option.splits window.splits)

lemma child_error_main_pc [simp]: "main_pc (child_error env p code s) = main_pc s"
  by (simp add: child_error_def handleCrash_def afterBooted_def send_def split: window.splits)

lemma child_error_fields [simp]:
  "shuttingDown (child_error env p code s) = shuttingDown s"
  "mainWindow (child_error env p code s) = mainWindow s"
  "lcdProcess (child_error env p code s) = lcdProcess s"
  "nodeIP (child_error env p code s) = nodeIP s"
  "connecting (child_error env p code s) = connecting s"
  "seeds (child_error env p code s) = seeds s"
  "booted (child_error env p code s) = booted s"
  "files (child_error env p code s) = files s"
  "next_id (child_error env p code s) = next_id s"
  "random_calls (child_error env p code s) = random_calls s"
  "lost (child_error env p code s) = lost s"
  "hash_approved (child_error env p code s) = hash_approved s"
  "hash_disapproved (child_error env p code s) = hash_disapproved s"
  "init_stdout (child_error env p code s) = init_stdout s"
  "exit_listeners (child_error env p code s) = exit_listeners s"
  "gateways (child_error env p code s) = gateways s"
  "reconnects (child_error env p code s) = reconnects s"
  by (simp_all add: child_error_def unhandledRejection_def handleCrash_def afterBooted_def send_def emit_def split: window.splits)

lemma init_output_fields [simp]:
  "shuttingDown (init_output env l data s) = shuttingDown s"
  "mainWindow (init_output env l data s) = mainWindow s"
  "lcdProcess (init_output env l data s) = lcdProcess s"
  "nodeIP (init_output env l data s) = nodeIP s"
  "connecting (init_output env l data s) = connecting s"
  "seeds (init_output env l data s) = seeds s"
  "booted (init_output env l data s) = booted s"
  "files (init_output env l data s) = files s"
  "next_id (init_output env l data s) = next_id s"
  "random_calls (init_output env l data s) = random_calls s"
  "lost (init_output env l data s) = lost s"
  "init_stdout (init_output env l data s) = init_stdout s"
  "exit_listeners (init_output env l data s) = exit_listeners s"
  "gateways (init_output env l data s) = gateways s"
  "reconnects (init_output env l data s) = reconnects s"
  by (simp_all add: init_output_def handleHashVerification_def unhandledRejection_def handleCrash_def afterBooted_def send_def emit_def split: option.splits window.splits)

subsection \<open>Starting the gateway\<close>

lemma example_main:
  "main example_env (Some example_dir) =
     (initial (Some example_dir))
       \<lparr>files := Some (example_dir(''main.log'' \<mapsto> [])), next_id := 1,
         main_pc := MainAwaitVersion 0 False, effects := [Spawn 0 [''version'']]\<rparr>"
proof -
  have "check_existing example_env example_dir = Inr False"
    by (simp add: check_existing_def check_genesis_def readFile_def consistentConfigDir_def
        example_dir_def example_files_def example_env_def semver_diff_def semver_diff_parsed_def)
  then have "main example_env (Some example_dir) =
      (snd (startProcess [''version'']
         ((initial (Some example_dir))\<lparr>files := Some (setupLogging example_env example_dir)\<rparr>)))
        \<lparr>main_pc := MainAwaitVersion 0 False\<rparr>"
    by (simp add: main_existing check_existing_setupLogging)
  moreover have "setupLogging example_env example_dir = example_dir(''main.log'' \<mapsto> [])"
    by (simp add: setupLogging_def ensureFile_def example_env_def example_dir_def example_files_def)
  ultimately show ?thesis
    by (simp add: startProcess_def emit_def initial_def)
qed

lemma example_starting_reached:
  "run example_env [AppReady, Stdout 0 ''0.19.0'', IpcBooted, Stderr 1 ''already is initialized'']
     (main example_env (Some example_dir)) = example_starting"
  unfolding example_main run_def
  by (simp add: initial_def createWindow_def stdout_data_def main_resume_version_def
      main_read_config_def readFile_def
      example_dir_def example_files_def example_env_def parse_seeds_def pick_def truthy_def
      pickNode_def element_at_def split_colon_first_def lcdInitialized_def startProcess_def emit_def
      booted_message_def stderr_data_def starts_with_def main_resume_initialized_def
      main_connect_def connect_def startLCD_def logProcess_def ensureFile_def arg_of_def
      example_starting_def)

lemma reconnect_serving_found:
  assumes "find (awaits_connect p) (reconnects s) = Some (RcConnect q node)"
  shows "reconnect_serving env p s =
     (if can_send s
      then snd (connect_resume p node
                  (s\<lparr>reconnects := filter (\<lambda>rc. \<not> awaits_connect p rc) (reconnects s)\<rparr>))
      else s\<lparr>reconnects := filter (\<lambda>rc. \<not> awaits_connect p rc) (reconnects s),
             lcdProcess := Some p\<rparr>)"
proof (cases "can_send s")
  case True
  then have "can_send (s\<lparr>reconnects := filter (\<lambda>rc. \<not> awaits_connect p rc) (reconnects s)\<rparr>)"
    by simp
  from connect_resume_can_send [OF this] assms True show ?thesis
    by (simp add: reconnect_serving_def)
next
  case False
  let ?s0 = "s\<lparr>reconnects := filter (\<lambda>rc. \<not> awaits_connect p rc) (reconnects s)\<rparr>"
  have c: "\<not> can_send ?s0" using False by simp
  from connect_resume_cannot [OF c] obtain err where
    r: "connect_resume p node ?s0 = (Some err, ?s0\<lparr>lcdProcess := Some p\<rparr>)" by blast
  have "\<not> can_send (?s0\<lparr>lcdProcess := Some p\<rparr>)" using c by simp
  from crash_cannot(1) [OF this] r assms False show ?thesis
    by (simp add: reconnect_serving_def)
qed

lemma reconnect_serving_none:
  "find (awaits_connect p) (reconnects s) = None \<Longrightarrow> reconnect_serving env p s = s"
  by (simp add: reconnect_serving_def)

lemma find_awaits_connect:
  "find (awaits_connect p) rcs = Some rc \<Longrightarrow> \<exists>node. rc = RcConnect p node"
proof (induction rcs)
  case Nil
  then show ?case by simp
next
  case (Cons x xs)
  then show ?case
    by (cases x) (auto simp: awaits_connect_def split: if_splits)
qed

lemma reconnect_serving_main_pc [simp]: "main_pc (reconnect_serving env p s) = main_pc s"
proof (cases "find (awaits_connect p) (reconnects s)")
  case None
  then show ?thesis by (simp add: reconnect_serving_none)
next
  case (Some rc)
  with find_awaits_connect [OF Some] obtain node where
    "find (awaits_connect p) (reconnects s) = Some (RcConnect p node)" by blast
  from reconnect_serving_found [OF this] show ?thesis by simp
qed

lemma main_serving_can_send:
  assumes "main_pc s = MainAwaitConnect p node" and "can_send s"
  shows "gateway_serving env p s = (snd (connect_resume p node s))\<lparr>main_pc := MainDone\<rparr>"
  using assms connect_resume_can_send [OF assms(2), of p node]
  by (simp add: gateway_serving_def)

lemma main_serving_cannot:
  assumes "main_pc s = MainAwaitConnect p node" and "\<not> can_send s"
  shows "\<exists>text. gateway_serving env p s = s\<lparr>lcdProcess := Some p, main_pc := MainFailed (TypeError text)\<rparr>"
proof -
  have w: "mainWindow s \<noteq> WindowOpen" and b: "booted s"
    using assms(2) by (simp_all add: can_send_def)
  then obtain t where
    a: "afterBooted (''connected'', payload_of node) (s\<lparr>lcdProcess := Some p\<rparr>) = Inl (TypeError t)"
    by (cases "mainWindow s") (simp_all add: afterBooted_def send_def)
  have "\<not> can_send (s\<lparr>lcdProcess := Some p\<rparr>)" using assms(2) by simp
  from fail_main_cannot [OF this, of env "TypeError t"] a assms(1)
  have "gateway_serving env p s = s\<lparr>lcdProcess := Some p, main_pc := MainFailed (TypeError t)\<rparr>"
    by (simp add: gateway_serving_def connect_resume_def)
  then show ?thesis by blast
qed

lemma gateway_serving_other:
  assumes "\<forall>node. main_pc s \<noteq> MainAwaitConnect p node"
  shows "gateway_serving env p s = reconnect_serving env p s"
  using assms by (auto simp: gateway_serving_def split: main_pc.splits)

lemma step_pending:
  assumes "main_pc s = MainAwaitConnect g node"
    and "find (\<lambda>l. fst l = g) (init_stdout s) = None"
    and "\<forall>d. e = Stdout g d \<longrightarrow> \<not> includes_str d ''Serving on''"
  shows "main_pc (step env e s) = MainAwaitConnect g node"
proof (cases e)
  case (Stdout p d)
  show ?thesis
  proof (cases "p = g")
    case True
    with Stdout assms show ?thesis
      by (simp add: stdout_data_def child_output_def)
  next
    case False
    with assms(1) have "gateway_serving env p s = reconnect_serving env p s"
      by (intro gateway_serving_other) simp
    with Stdout assms(1) show ?thesis
      by (simp add: stdout_data_def child_output_def split: option.splits)
  qed
next
  case (Exit p code)
  with assms(1) show ?thesis by (simp add: child_exit_other)
qed (use assms(1) in \<open>simp_all add: stderr_data_def hash_approved_message_main_pc
       hash_disapproved_message_main_pc\<close>)

text \<open>
  C3 (amended). While \<^verbatim>\<open>main\<close> awaits the start of the gateway \<open>g\<close>, and as long as a
  message for the view can be handed over (the view has not booted yet, or the
  window is open): output of \<open>g\<close> that includes \<^verbatim>\<open>Serving on\<close> completes the startup (the
  gateway is recorded, the flag \<open>connecting\<close> is cleared and one \<^verbatim>\<open>connected\<close> message
  with the node goes to the view, at once or when the view has booted), and an exit
  of \<open>g\<close> sends the error \<^verbatim>\<open>The Gaia REST-server (LCD) exited unplanned\<close> to the view.
  When the view has booted and the window is gone, sending throws: such output
  records the gateway and makes \<^verbatim>\<open>main\<close> fail with the TypeError, \<open>connecting\<close> stays as
  it is and nothing is sent; an exit of \<open>g\<close> changes nothing. In either case every
  event other than such output leaves the startup pending. There is no bounded wait.
\<close>

theorem gateway_startup:
  assumes "main_pc s = MainAwaitConnect g node" and "g \<in> set (gateways s)"
    and "find (\<lambda>l. fst l = g) (init_stdout s) = None"
  shows "(includes_str data ''Serving on'' \<and> can_send s \<longrightarrow>
            main_pc (step env (Stdout g data) s) = MainDone
            \<and> lcdProcess (step env (Stdout g data) s) = Some g
            \<and> \<not> connecting (step env (Stdout g data) s)
            \<and> (if booted s
                then effects (step env (Stdout g data) s)
                       = effects s @ [Send ''connected'' (payload_of node)]
                else booted_once (step env (Stdout g data) s)
                       = booted_once s @ [(''connected'', payload_of node)]))
       \<and> (includes_str data ''Serving on'' \<and> \<not> can_send s \<longrightarrow>
            (\<exists>text. main_pc (step env (Stdout g data) s) = MainFailed (TypeError text))
            \<and> lcdProcess (step env (Stdout g data) s) = Some g
            \<and> connecting (step env (Stdout g data) s) = connecting s
            \<and> effects (step env (Stdout g data) s) = effects s
            \<and> booted_once (step env (Stdout g data) s) = booted_once s)
       \<and> (can_send s \<longrightarrow>
            (if booted s
             then effects (step env (Exit g code) s)
                    = effects s @ [Send ''error''
                        (PError (Error ''The Gaia REST-server (LCD) exited unplanned''))]
             else booted_once (step env (Exit g code) s)
                    = booted_once s @ [(''error'',
                        PError (Error ''The Gaia REST-server (LCD) exited unplanned''))]))
       \<and> (\<not> can_send s \<longrightarrow> step env (Exit g code) s = s)
       \<and> ((\<forall>d. e = Stdout g d \<longrightarrow> \<not> includes_str d ''Serving on'') \<longrightarrow>
            main_pc (step env e s) = MainAwaitConnect g node)"
proof (intro conjI impI)
  assume m: "includes_str data ''Serving on'' \<and> can_send s"
  have "step env (Stdout g data) s = gateway_serving env g s"
    using assms m by (simp add: stdout_data_def child_output_def)
  also have "\<dots> = (snd (connect_resume g node s))\<lparr>main_pc := MainDone\<rparr>"
    using assms(1) m by (simp add: main_serving_can_send)
  finally have st: "step env (Stdout g data) s = (snd (connect_resume g node s))\<lparr>main_pc := MainDone\<rparr>" .
  from m have c: "can_send s" by simp
  show "main_pc (step env (Stdout g data) s) = MainDone"
    "lcdProcess (step env (Stdout g data) s) = Some g"
    "\<not> connecting (step env (Stdout g data) s)"
    "if booted s
     then effects (step env (Stdout g data) s) = effects s @ [Send ''connected'' (payload_of node)]
     else booted_once (step env (Stdout g data) s)
            = booted_once s @ [(''connected'', payload_of node)]"
    unfolding st by (simp_all add: connect_resume_can_send [OF c] emit_def)
next
  assume m: "includes_str data ''Serving on'' \<and> \<not> can_send s"
  have st: "step env (Stdout g data) s = gateway_serving env g s"
    using assms m by (simp add: stdout_data_def child_output_def)
  from m main_serving_cannot [OF assms(1), of env] obtain t where
    g: "gateway_serving env g s = s\<lparr>lcdProcess := Some g, main_pc := MainFailed (TypeError t)\<rparr>"
    by blast
  show "\<exists>text. main_pc (step env (Stdout g data) s) = MainFailed (TypeError text)"
    unfolding st g by simp
  show "lcdProcess (step env (Stdout g data) s) = Some g"
    "connecting (step env (Stdout g data) s) = connecting s"
    "effects (step env (Stdout g data) s) = effects s"
    "booted_once (step env (Stdout g data) s) = booted_once s"
    unfolding st g by simp_all
next
  assume c: "can_send s"
  have "step env (Exit g code) s = gateway_exit env s"
    using assms by (simp add: child_exit_other)
  then show "if booted s
     then effects (step env (Exit g code) s)
            = effects s @ [Send ''error''
                (PError (Error ''The Gaia REST-server (LCD) exited unplanned''))]
     else booted_once (step env (Exit g code) s)
            = booted_once s @ [(''error'',
                PError (Error ''The Gaia REST-server (LCD) exited unplanned''))]"
    by (simp add: gateway_exit_can_send [OF c] emit_def)
next
  assume c: "\<not> can_send s"
  have "step env (Exit g code) s = gateway_exit env s"
    using assms by (simp add: child_exit_other)
  then show "step env (Exit g code) s = s"
    by (simp add: gateway_exit_cannot [OF c])
next
  assume "\<forall>d. e = Stdout g d \<longrightarrow> \<not> includes_str d ''Serving on''"
  with assms show "main_pc (step env e s) = MainAwaitConnect g node"
    by (intro step_pending) simp_all
qed

lemma example_starting_simps [simp]:
  "main_pc example_starting = MainAwaitConnect 2 (Some ''a.example:46657'')"
  "gateways example_starting = [2]" "init_stdout example_starting = []"
  "booted example_starting" "booted_once example_starting = []"
  "connecting example_starting" "reconnects example_starting = []"
  "mainWindow example_starting = WindowOpen" "lcdProcess example_starting = None"
  "\<not> shuttingDown example_starting"
  by (simp_all add: example_starting_def)

lemma example_starting_closed:
  "step env WindowClosed example_starting
     = example_starting\<lparr>shuttingDown := True, mainWindow := WindowNull\<rparr>"
  by (simp add: window_closed_def shutdown_def example_starting_def)

theorem gateway_startup_witness:
  "main_pc (step example_env (Stdout 2 ''Serving on 127.0.0.1:8998'') example_starting) = MainDone
   \<and> effects (step example_env (Stdout 2 ''Serving on 127.0.0.1:8998'') example_starting)
       = effects example_starting @ [Send ''connected'' (PString ''a.example:46657'')]
   \<and> effects (step example_env (Exit 2 1) example_starting)
       = effects example_starting
           @ [Send ''error'' (PError (Error ''The Gaia REST-server (LCD) exited unplanned''))]
   \<and> main_pc (step example_env (Exit 2 1) example_starting)
       = MainAwaitConnect 2 (Some ''a.example:46657'')
   \<and> connecting (step example_env (Stdout 2 ''Serving on 127.0.0.1:8998'')
        (step example_env WindowClosed example_starting))
   \<and> effects (step example_env (Stdout 2 ''Serving on 127.0.0.1:8998'')
        (step example_env WindowClosed example_starting)) = effects example_starting
   \<and> step example_env (Exit 2 1) (step example_env WindowClosed example_starting)
       = step example_env WindowClosed example_starting"
proof -
  let ?c = "example_starting\<lparr>shuttingDown := True, mainWindow := WindowNull\<rparr>"
  have m: "includes_str ''Serving on 127.0.0.1:8998'' ''Serving on''"
    by (simp add: starts_with_def)
  have e: "\<forall>d. Exit 2 1 = Stdout 2 d \<longrightarrow> \<not> includes_str d ''Serving on''"
    by simp
  have o: "can_send example_starting" and c: "\<not> can_send ?c"
    by (simp_all add: can_send_def)
  note a = gateway_startup [of example_starting 2 "Some ''a.example:46657''"
        "''Serving on 127.0.0.1:8998''" example_env 1 "Exit 2 1"]
  note b = gateway_startup [of ?c 2 "Some ''a.example:46657''"
        "''Serving on 127.0.0.1:8998''" example_env 1 "Exit 2 1"]
  have "main_pc (step example_env (Stdout 2 ''Serving on 127.0.0.1:8998'') example_starting) = MainDone
   \<and> effects (step example_env (Stdout 2 ''Serving on 127.0.0.1:8998'') example_starting)
       = effects example_starting @ [Send ''connected'' (PString ''a.example:46657'')]
   \<and> effects (step example_env (Exit 2 1) example_starting)
       = effects example_starting
           @ [Send ''error'' (PError (Error ''The Gaia REST-server (LCD) exited unplanned''))]
   \<and> main_pc (step example_env (Exit 2 1) example_starting)
       = MainAwaitConnect 2 (Some ''a.example:46657'')"
    using a m e o by (simp add: payload_of_def del: includes_str.simps)
  moreover have "connecting (step example_env (Stdout 2 ''Serving on 127.0.0.1:8998'') ?c)
   \<and> effects (step example_env (Stdout 2 ''Serving on 127.0.0.1:8998'') ?c) = effects example_starting
   \<and> step example_env (Exit 2 1) ?c = ?c"
    using b m c by (simp del: includes_str.simps)
  ultimately show ?thesis
    unfolding example_starting_closed by simp
qed

text \<open>
  C3 as stated fails. With the window open, the gateway prints no marker and exits
  with code 1, and the startup is still pending with \<open>connecting\<close> set; the output
  without the marker produced nothing, and the program has set no timer at all. And
  when the window has been closed, the exit of the gateway does not even surface an
  error: nothing is sent, and the startup is pending all the same.
\<close>

theorem gateway_startup_counterexample:
  "main_pc (run example_env [Stdout 2 ''Starting the REST server...'', Exit 2 1]
              example_starting) = MainAwaitConnect 2 (Some ''a.example:46657'')
   \<and> connecting (run example_env [Stdout 2 ''Starting the REST server...'', Exit 2 1]
              example_starting)
   \<and> effects (run example_env [Stdout 2 ''Starting the REST server...'', Exit 2 1]
              example_starting)
       = effects example_starting
           @ [Send ''error'' (PError (Error ''The Gaia REST-server (LCD) exited unplanned''))]
   \<and> filter (\<lambda>e. case e of SetTimeout r ms \<Rightarrow> True | _ \<Rightarrow> False)
        (effects (run example_env [Stdout 2 ''Starting the REST server...'', Exit 2 1]
              example_starting)) = []
   \<and> main_pc (run example_env [WindowClosed, Exit 2 1] example_starting)
       = MainAwaitConnect 2 (Some ''a.example:46657'')
   \<and> effects (run example_env [WindowClosed, Exit 2 1] example_starting)
       = effects example_starting"
  by (simp add: run_def stdout_data_def child_output_def starts_with_def
      window_closed_def shutdown_def uncaughtException_def handleCrash_def
      child_exit_def gateway_exit_def afterBooted_def send_def emit_def example_starting_def)

subsection \<open>The trust handshake\<close>


lemma main_connect_listeners [simp]:
  "hash_approved (main_connect env s) = hash_approved s"
  "hash_disapproved (main_connect env s) = hash_disapproved s"
  "exit_listeners (main_connect env s) = exit_listeners s"
  "shuttingDown (main_connect env s) = shuttingDown s"
  "seeds (main_connect env s) = seeds s"
  by (simp_all add: main_connect_def split_def Let_def)

lemma init_settled_listeners [simp]:
  "hash_approved (init_settled env outcome s) = hash_approved s"
  "hash_disapproved (init_settled env outcome s) = hash_disapproved s"
  "exit_listeners (init_settled env outcome s) = exit_listeners s"
  "shuttingDown (init_settled env outcome s) = shuttingDown s"
  "seeds (init_settled env outcome s) = seeds s"
  by (simp_all add: init_settled_def split: main_pc.splits option.splits)

lemma rejected_listeners [simp]:
  "hash_approved (rejected env tr s) = hash_approved s"
  "hash_disapproved (rejected env tr s) = hash_disapproved s"
  "exit_listeners (rejected env tr s) = exit_listeners s"
  "shuttingDown (rejected env tr s) = shuttingDown s"
  "seeds (rejected env tr s) = seeds s"
  by (simp_all add: rejected_def Let_def split_def split: sum.splits)

lemma pick_at_fst: "fst (pick env sd s) = pick_at env sd (random_calls s)"
  by (simp add: pick_at_def pick_def split: option.splits)

lemma pick_random_calls: "random_calls (snd (pick env sd s)) = random_calls s + draws env"
  by (simp add: pick_def draws_def split: option.splits)

lemma pick_ok_candidate:
  assumes "pick_ok env sd"
  shows "\<exists>m. candidate env sd m \<and> pick_at env sd c = Inr (split_colon_first m @ '':46657'')"
proof (cases "truthy (NODE env)")
  case True
  then obtain n where "NODE env = Some n" "n \<noteq> []"
    by (auto simp: truthy_def split: option.splits)
  with True show ?thesis
    by (simp add: candidate_def pick_at_def pick_def pickNode_def)
next
  case False
  with assms obtain pool where p: "sd = Some pool" "pool \<noteq> []"
    and r: "0 \<le> random env c" "random env c < 1"
    by (auto simp: pick_ok_def)
  from element_at_floor [OF p(2) r] obtain m
    where "m \<in> set pool" "element_at pool \<lfloor>random env c * real (length pool)\<rfloor> = Some m" by blast
  with False p show ?thesis
    by (auto simp: candidate_def pick_at_def pick_def pickNode_def initial_def)
qed

lemma pick_ok_node_at:
  assumes "pick_ok env sd"
  shows "pick_at env sd c = Inr (node_at env sd c)"
    and "\<exists>m. candidate env sd m \<and> node_at env sd c = split_colon_first m @ '':46657''"
  using pick_ok_candidate [OF assms, of c] by (auto simp: node_at_def)





lemma foldl_rejected_listeners [simp]:
  "hash_approved (foldl (\<lambda>s' tr'. rejected env tr' s') s trs) = hash_approved s"
  "hash_disapproved (foldl (\<lambda>s' tr'. rejected env tr' s') s trs) = hash_disapproved s"
  "exit_listeners (foldl (\<lambda>s' tr'. rejected env tr' s') s trs) = exit_listeners s"
  by (induction trs arbitrary: s) simp_all






lemma example_trust_simps [simp]:
  "hash_approved example_trust =
     [TrustRequest example_hash 2 (JString ''gaia-6002'') ''/home/user/.cosmos-voyager/lcd'']"
  "hash_disapproved example_trust =
     [TrustRequest example_hash 2 (JString ''gaia-6002'') ''/home/user/.cosmos-voyager/lcd'']"
  "\<not> shuttingDown example_trust" "next_id example_trust = 3"
  "seeds example_trust = Some [''a.example:26656'', ''b.example:26656'']"
  "random_calls example_trust = 1" "mainWindow example_trust = WindowOpen"
  "booted example_trust" "lcdProcess example_trust = None"
  "init_stdout example_trust = [(2, JString ''gaia-6002'', ''/home/user/.cosmos-voyager/lcd'')]"
  "main_pc example_trust = MainAwaitInit"
  by (simp_all add: example_trust_def)

lemma example_pick_ok: "pick_ok example_env (Some [''a.example:26656'', ''b.example:26656''])"
  by (simp add: pick_ok_def example_env_def)

lemma example_node_at:
  "node_at example_env (Some [''a.example:26656'', ''b.example:26656'']) (Suc c) = ''b.example:46657''"
  "node_at example_env (Some [''a.example:26656'', ''b.example:26656'']) 0 = ''a.example:46657''"
  "node_at (example_env\<lparr>random := \<lambda>k. 0\<rparr>) (Some [''a.example:26656'', ''b.example:26656'']) c
     = ''a.example:46657''"
  "draws example_env = 1" "draws (example_env\<lparr>random := \<lambda>k. 0\<rparr>) = 1"
  by (simp_all add: node_at_def pick_at_def pick_def truthy_def example_env_def pickNode_def
      element_at_def split_colon_first_def draws_def)



lemma example_trust2_simps [simp]:
  "hash_approved example_trust2 =
     [TrustRequest example_hash 2 (JString ''gaia-6002'') ''/home/user/.cosmos-voyager/lcd'',
      TrustRequest example_hash2 2 (JString ''gaia-6002'') ''/home/user/.cosmos-voyager/lcd'']"
  "hash_disapproved example_trust2 =
     [TrustRequest example_hash 2 (JString ''gaia-6002'') ''/home/user/.cosmos-voyager/lcd'',
      TrustRequest example_hash2 2 (JString ''gaia-6002'') ''/home/user/.cosmos-voyager/lcd'']"
  "\<not> shuttingDown example_trust2" "next_id example_trust2 = 3"
  "seeds example_trust2 = Some [''a.example:26656'', ''b.example:26656'']"
  "random_calls example_trust2 = 1"
  by (simp_all add: example_trust2_def)








lemma approved_fields [simp]:
  "shuttingDown (approved tr s) = shuttingDown s"
  "seeds (approved tr s) = seeds s"
  "next_id (approved tr s) = next_id s"
  "random_calls (approved tr s) = random_calls s"
  "hash_approved (approved tr s) = hash_approved s"
  "hash_disapproved (approved tr s) = hash_disapproved s"
  by (simp_all add: approved_def)


lemma settle_fields [simp]:
  "shuttingDown (settle env h s tr) = shuttingDown s"
  "seeds (settle env h s tr) = seeds s"
  by (simp_all add: settle_def)





lemma right_hash_approved:
  assumes "hash_approved s = [tr]" and "\<not> shuttingDown s"
  shows "effects (step env (IpcHashApproved (fingerprint tr)) s)
           = effects s @ [StdinWrite (child tr) (''y'' @ [CHR 0x0A])]"
  using assms by (simp add: hash_approved_message_def settle_def approved_def emit_def)



subsection \<open>The reconnect loop\<close>

lemma main_connect_core [simp]:
  "connecting (main_connect env s) = connecting s"
  "reconnects (main_connect env s) = reconnects s"
  "main_pc (main_connect env s) \<noteq> MainDone"
  by (simp_all add: main_connect_def split_def Let_def)

lemma init_settled_core [simp]:
  "connecting (init_settled env outcome s) = connecting s"
  "reconnects (init_settled env outcome s) = reconnects s"
  "(main_pc (init_settled env outcome s) = MainDone) = (main_pc s = MainDone)"
  by (simp_all add: init_settled_def split: main_pc.splits option.splits)

lemma approved_core [simp]:
  "connecting (approved tr s) = connecting s"
  "reconnects (approved tr s) = reconnects s"
  by (simp_all add: approved_def)

lemma rejected_core [simp]:
  "connecting (rejected env tr s) = connecting s"
  "reconnects (rejected env tr s) = reconnects s"
  "(main_pc (rejected env tr s) = MainDone) = (main_pc s = MainDone)"
  by (simp_all add: rejected_def Let_def split_def split: sum.splits)

lemma settle_core [simp]:
  "connecting (settle env h s tr) = connecting s"
  "reconnects (settle env h s tr) = reconnects s"
  "(main_pc (settle env h s tr) = MainDone) = (main_pc s = MainDone)"
  by (simp_all add: settle_def)

lemma foldl_settle_core [simp]:
  "connecting (foldl (settle env h) s trs) = connecting s"
  "reconnects (foldl (settle env h) s trs) = reconnects s"
  "(main_pc (foldl (settle env h) s trs) = MainDone) = (main_pc s = MainDone)"
  by (induction trs arbitrary: s) simp_all

lemma foldl_rejected_core [simp]:
  "connecting (foldl (\<lambda>s' tr'. rejected env tr' s') s trs) = connecting s"
  "reconnects (foldl (\<lambda>s' tr'. rejected env tr' s') s trs) = reconnects s"
  "(main_pc (foldl (\<lambda>s' tr'. rejected env tr' s') s trs) = MainDone) = (main_pc s = MainDone)"
  by (induction trs arbitrary: s) simp_all

lemma hash_approved_message_core [simp]:
  "connecting (hash_approved_message env h s) = connecting s"
  "reconnects (hash_approved_message env h s) = reconnects s"
  "(main_pc (hash_approved_message env h s) = MainDone) = (main_pc s = MainDone)"
  by (simp_all add: hash_approved_message_def split: list.splits)

lemma hash_disapproved_message_core [simp]:
  "connecting (hash_disapproved_message env s) = connecting s"
  "reconnects (hash_disapproved_message env s) = reconnects s"
  "(main_pc (hash_disapproved_message env s) = MainDone) = (main_pc s = MainDone)"
  by (simp_all add: hash_disapproved_message_def split: list.splits)

lemma foldl_exit_core [simp]:
  "connecting (foldl (\<lambda>s' q. if q = p then init_settled env (expectCleanExit code s') s' else s') s qs)
     = connecting s"
  "reconnects (foldl (\<lambda>s' q. if q = p then init_settled env (expectCleanExit code s') s' else s') s qs)
     = reconnects s"
  "(main_pc (foldl (\<lambda>s' q. if q = p then init_settled env (expectCleanExit code s') s' else s') s qs)
     = MainDone) = (main_pc s = MainDone)"
  by (induction qs arbitrary: s) simp_all

lemma child_exit_core [simp]:
  "connecting (child_exit env p code s) = connecting s"
  "reconnects (child_exit env p code s) = reconnects s"
  "(main_pc (child_exit env p code s) = MainDone) = (main_pc s = MainDone)"
  by (simp_all add: child_exit_def)

lemma main_resume_version_core:
  "connecting (main_resume_version env data init s) = connecting s"
  "reconnects (main_resume_version env data init s) = reconnects s"
  "main_pc (main_resume_version env data init s) \<noteq> MainDone"
  by (simp_all add: main_resume_version_def lcdInitialized_def Let_def split_def
      split: sum.splits prod.splits)

lemma main_resume_initialized_core:
  "connecting (main_resume_initialized env init cid b s) = connecting s"
  "reconnects (main_resume_initialized env init cid b s) = reconnects s"
  "main_pc (main_resume_initialized env init cid b s) \<noteq> MainDone"
  by (simp_all add: main_resume_initialized_def)

lemma stderr_data_core:
  "connecting (stderr_data env p data s) = connecting s"
  "reconnects (stderr_data env p data s) = reconnects s"
  "(main_pc (stderr_data env p data s) = MainDone) = (main_pc s = MainDone)"
  by (simp_all add: stderr_data_def main_resume_initialized_core split: main_pc.splits)

lemma find_single:
  assumes "find P xs = Some x" and "length xs \<le> 1"
  shows "xs = [x] \<and> P x \<and> filter (\<lambda>y. \<not> P y) xs = []"
proof (cases xs)
  case Nil
  with assms show ?thesis by simp
next
  case (Cons y ys)
  with assms(2) have "ys = []" by simp
  with Cons assms(1) show ?thesis by (simp split: if_splits)
qed

lemma reconnect_round_inv:
  assumes "reconnects s = []" and "connecting s" and "main_pc s = MainDone"
  shows "single_reconnect (reconnect_round env sd s)"
  using assms
  by (simp add: single_reconnect_def reconnect_round_def emit_def split_def split: sum.splits)

lemma reconnect_finish_inv:
  assumes "reconnects s = []" and "connecting s" and "main_pc s = MainDone"
  shows "single_reconnect (reconnect_finish env s)"
  using assms
  by (simp add: single_reconnect_def reconnect_finish_def split_def Let_def split: option.splits)

lemma reconnect_inv: "single_reconnect s \<Longrightarrow> single_reconnect (reconnect env s)"
proof (cases "connecting s")
  case True
  assume "single_reconnect s"
  with True show ?thesis by (simp add: reconnect_def)
next
  case False
  assume "single_reconnect s"
  with False have "reconnects s = []" "main_pc s = MainDone"
    by (auto simp: single_reconnect_def)
  with False show ?thesis
    by (simp add: reconnect_def reconnect_round_inv)
qed

lemma probe_result_inv:
  assumes "single_reconnect s"
  shows "single_reconnect (probe_result env r alive s)"
proof (cases "find (awaits_probe r) (reconnects s)")
  case None
  with assms show ?thesis by (simp add: probe_result_def)
next
  case (Some rc)
  from assms have len: "length (reconnects s) \<le> 1" by (simp add: single_reconnect_def)
  from find_single [OF Some len]
  have one: "reconnects s = [rc]" and aw: "awaits_probe r rc"
    and flt: "filter (\<lambda>y. \<not> awaits_probe r y) (reconnects s) = []" by simp_all
  from aw obtain r' sd node where rc: "rc = RcProbe r' sd node"
    by (cases rc) (simp_all add: awaits_probe_def)
  from assms one have c: "connecting s" and d: "main_pc s = MainDone"
    by (auto simp: single_reconnect_def)
  let ?s1 = "s\<lparr>reconnects := []\<rparr>"
  have "single_reconnect (reconnect_finish env ?s1)"
    using c d by (intro reconnect_finish_inv) simp_all
  moreover have "single_reconnect (emit (SetTimeout (next_id ?s1) 2000)
       (?s1\<lparr>next_id := Suc (next_id ?s1), reconnects := reconnects ?s1 @ [RcSleep (next_id ?s1) sd]\<rparr>))"
    using c d by (simp add: single_reconnect_def)
  ultimately show ?thesis
    using Some rc flt by (simp add: probe_result_def Let_def)
qed

lemma timer_fired_inv:
  assumes "single_reconnect s"
  shows "single_reconnect (timer_fired env r s)"
proof (cases "find (awaits_sleep r) (reconnects s)")
  case None
  with assms show ?thesis by (simp add: timer_fired_def)
next
  case (Some rc)
  from assms have len: "length (reconnects s) \<le> 1" by (simp add: single_reconnect_def)
  from find_single [OF Some len]
  have one: "reconnects s = [rc]" and aw: "awaits_sleep r rc"
    and flt: "filter (\<lambda>y. \<not> awaits_sleep r y) (reconnects s) = []" by simp_all
  from aw obtain r' sd where rc: "rc = RcSleep r' sd"
    by (cases rc) (simp_all add: awaits_sleep_def)
  from assms one have c: "connecting s" and d: "main_pc s = MainDone"
    by (auto simp: single_reconnect_def)
  have "single_reconnect (reconnect_round env sd (s\<lparr>reconnects := []\<rparr>))"
    using c d by (intro reconnect_round_inv) simp_all
  then show ?thesis
    using Some rc flt by (simp add: timer_fired_def)
qed

lemma connect_resume_connecting:
  "can_send s \<Longrightarrow> \<not> connecting (snd (connect_resume p node s))"
  by (simp add: connect_resume_can_send)

lemma connect_resume_lcdProcess [simp]:
  "lcdProcess (snd (connect_resume p node s)) = Some p"
  by (cases "can_send s") (use connect_resume_cannot [of s p node] in
      \<open>auto simp: connect_resume_can_send emit_def\<close>)

lemma reconnect_serving_inv:
  assumes "single_reconnect s"
  shows "single_reconnect (reconnect_serving env p s)"
proof (cases "find (awaits_connect p) (reconnects s)")
  case None
  with assms show ?thesis by (simp add: reconnect_serving_none)
next
  case (Some rc)
  from assms have len: "length (reconnects s) \<le> 1" by (simp add: single_reconnect_def)
  from find_single [OF Some len]
  have one: "reconnects s = [rc]"
    and flt: "filter (\<lambda>y. \<not> awaits_connect p y) (reconnects s) = []" by simp_all
  from find_awaits_connect [OF Some] obtain node where rc: "rc = RcConnect p node" by blast
  from assms one have d: "main_pc s = MainDone" and c: "connecting s"
    by (auto simp: single_reconnect_def)
  have f: "reconnect_serving env p s =
     (if can_send s then snd (connect_resume p node (s\<lparr>reconnects := []\<rparr>))
      else s\<lparr>reconnects := [], lcdProcess := Some p\<rparr>)"
    using reconnect_serving_found [of p s p node env] Some rc flt by simp
  show ?thesis
  proof (cases "can_send s")
    case True
    then have "can_send (s\<lparr>reconnects := []\<rparr>)" by simp
    from connect_resume_connecting [OF this, of p node] True d show ?thesis
      unfolding f by (simp add: single_reconnect_def)
  next
    case False
    with d c show ?thesis
      unfolding f by (simp add: single_reconnect_def)
  qed
qed

lemma gateway_serving_inv:
  assumes "single_reconnect s"
  shows "single_reconnect (gateway_serving env p s)"
proof (cases "\<exists>node. main_pc s = MainAwaitConnect p node")
  case True
  then obtain node where m: "main_pc s = MainAwaitConnect p node" by blast
  with assms have r: "reconnects s = []" and c: "connecting s"
    by (auto simp: single_reconnect_def)
  show ?thesis
  proof (cases "can_send s")
    case True
    from main_serving_can_send [OF m True, of env] connect_resume_connecting [OF True, of p node] r
    show ?thesis by (simp add: single_reconnect_def)
  next
    case False
    from main_serving_cannot [OF m False, of env] obtain t where
      "gateway_serving env p s = s\<lparr>lcdProcess := Some p, main_pc := MainFailed (TypeError t)\<rparr>"
      by blast
    with r c show ?thesis by (simp add: single_reconnect_def)
  qed
next
  case False
  then have "gateway_serving env p s = reconnect_serving env p s"
    by (intro gateway_serving_other) simp
  with assms show ?thesis by (simp add: reconnect_serving_inv)
qed

lemma same_core_inv:
  assumes "single_reconnect s" and "connecting s' = connecting s" and "reconnects s' = reconnects s"
    and "(main_pc s' = MainDone) = (main_pc s = MainDone)"
  shows "single_reconnect s'"
  using assms by (simp add: single_reconnect_def)

lemma not_done_inv:
  assumes "single_reconnect s" and "main_pc s \<noteq> MainDone"
    and "connecting s' = connecting s" and "reconnects s' = reconnects s"
  shows "single_reconnect s'"
  using assms by (auto simp: single_reconnect_def)

lemma child_output_inv:
  assumes "single_reconnect s"
  shows "single_reconnect (child_output env p data s)"
proof (cases "find (\<lambda>l. fst l = p) (init_stdout s)")
  case (Some l)
  then have "child_output env p data s = init_output env l data s"
    by (simp add: child_output_def)
  moreover have "single_reconnect (init_output env l data s)"
    using assms by (rule same_core_inv) simp_all
  ultimately show ?thesis by simp
next
  case None
  with assms show ?thesis
    by (simp add: child_output_def gateway_serving_inv del: includes_str.simps)
qed

lemma stdout_data_inv:
  assumes "single_reconnect s"
  shows "single_reconnect (stdout_data env p data s)"
proof (cases "\<exists>init. main_pc s = MainAwaitVersion p init")
  case True
  then obtain init where m: "main_pc s = MainAwaitVersion p init" by blast
  then have "stdout_data env p data s = main_resume_version env data init s"
    by (simp add: stdout_data_def)
  moreover have "single_reconnect (main_resume_version env data init s)"
  proof (rule not_done_inv [OF assms])
    show "main_pc s \<noteq> MainDone" using m by simp
  qed (simp_all add: main_resume_version_core)
  ultimately show ?thesis by simp
next
  case False
  then have "stdout_data env p data s = child_output env p data s"
    by (auto simp: stdout_data_def split: main_pc.splits)
  with child_output_inv [OF assms] show ?thesis by simp
qed

lemma step_inv: "single_reconnect s \<Longrightarrow> single_reconnect (step env e s)"
proof (cases e)
  case (Stdout p data)
  assume "single_reconnect s"
  with Stdout show ?thesis by (simp add: stdout_data_inv)
next
  case (Stderr p data)
  assume a: "single_reconnect s"
  show ?thesis unfolding Stderr step.simps
    using a by (rule same_core_inv) (simp_all add: stderr_data_core)
next
  case (Exit p code)
  assume a: "single_reconnect s"
  show ?thesis unfolding Exit step.simps
    using a by (rule same_core_inv) simp_all
next
  case (ChildError p code)
  assume a: "single_reconnect s"
  show ?thesis unfolding ChildError step.simps
    using a by (rule same_core_inv) simp_all
next
  case (HttpResult r alive)
  assume "single_reconnect s"
  with HttpResult show ?thesis by (simp add: probe_result_inv)
next
  case (TimerFired r)
  assume "single_reconnect s"
  with TimerFired show ?thesis by (simp add: timer_fired_inv)
next
  case IpcBooted
  assume a: "single_reconnect s"
  show ?thesis unfolding IpcBooted step.simps
    using a by (rule same_core_inv) simp_all
next
  case IpcReconnect
  assume "single_reconnect s"
  with IpcReconnect show ?thesis by (simp add: reconnect_inv)
next
  case (IpcHashApproved h)
  assume a: "single_reconnect s"
  show ?thesis unfolding IpcHashApproved step.simps
    using a by (rule same_core_inv) simp_all
next
  case (IpcHashDisapproved h)
  assume a: "single_reconnect s"
  show ?thesis unfolding IpcHashDisapproved step.simps
    using a by (rule same_core_inv) simp_all
next
  case AppReady
  assume a: "single_reconnect s"
  show ?thesis unfolding AppReady step.simps
    using a by (rule same_core_inv) simp_all
next
  case AppActivate
  assume a: "single_reconnect s"
  show ?thesis unfolding AppActivate step.simps
    using a by (rule same_core_inv) simp_all
next
  case WindowClosed
  assume a: "single_reconnect s"
  show ?thesis unfolding WindowClosed step.simps
    using a by (rule same_core_inv) simp_all
qed

lemma run_inv: "single_reconnect s \<Longrightarrow> single_reconnect (run env es s)"
  unfolding run_def by (induction es arbitrary: s) (simp_all add: step_inv)

lemma main_inv: "single_reconnect (main env fs0)"
proof (cases fs0)
  case None
  then show ?thesis
    by (simp add: main_fresh single_reconnect_def initial_def split: sum.splits)
next
  case (Some f)
  then show ?thesis
    by (simp add: main_existing single_reconnect_def initial_def split: sum.splits)
qed

lemma reconnect_round_probing:
  assumes "pick_ok env sd" and "reconnects s = []" and "connecting s" and "main_pc s = MainDone"
    and "lcdProcess s = Some g" and "booted s" and "mainWindow s = WindowOpen"
    and "\<forall>l \<in> set (init_stdout s). fst l \<le> next_id s"
  shows "probing g (next_id s) sd (reconnect_round env sd s)
       \<and> effects (reconnect_round env sd s)
           = effects s @ [HttpGet (next_id s) (''http://'' @ node_at env sd (random_calls s)) 3000]
       \<and> random_calls (reconnect_round env sd s) = random_calls s + draws env
       \<and> init_stdout (reconnect_round env sd s) = init_stdout s
       \<and> nodeIP (reconnect_round env sd s) = nodeIP s
       \<and> gateways (reconnect_round env sd s) = gateways s"
proof -
  have "fst (pick env sd s) = Inr (node_at env sd (random_calls s))"
    using pick_ok_node_at(1) [OF assms(1)] by (simp add: pick_at_fst)
  then show ?thesis
    using assms pick_random_calls [of env sd s]
    by (auto simp: reconnect_round_def split_def probing_def emit_def)
qed

lemma failed_round:
  assumes "probing g n sd s" and "pick_ok env sd"
  shows "probing g (Suc (Suc n)) sd (step env (TimerFired (Suc n)) (step env (HttpResult n False) s))
       \<and> effects (step env (TimerFired (Suc n)) (step env (HttpResult n False) s))
           = effects s @ [SetTimeout (Suc n) 2000,
                          HttpGet (Suc (Suc n)) (''http://'' @ node_at env sd (random_calls s)) 3000]
       \<and> random_calls (step env (TimerFired (Suc n)) (step env (HttpResult n False) s))
           = random_calls s + draws env
       \<and> init_stdout (step env (TimerFired (Suc n)) (step env (HttpResult n False) s)) = init_stdout s
       \<and> nodeIP (step env (TimerFired (Suc n)) (step env (HttpResult n False) s)) = nodeIP s
       \<and> gateways (step env (TimerFired (Suc n)) (step env (HttpResult n False) s)) = gateways s"
proof -
  from assms(1) obtain node where rc: "reconnects s = [RcProbe n sd node]"
    and f: "next_id s = Suc n" "connecting s" "main_pc s = MainDone" "lcdProcess s = Some g"
      "booted s" "mainWindow s = WindowOpen" "\<forall>l \<in> set (init_stdout s). fst l \<le> n"
    by (auto simp: probing_def)
  let ?s1 = "emit (SetTimeout (Suc n) 2000)
      (s\<lparr>reconnects := [], next_id := Suc (Suc n), reconnects := [RcSleep (Suc n) sd]\<rparr>)"
  have s1: "step env (HttpResult n False) s = ?s1"
    using rc f(1) by (simp add: probe_result_def awaits_probe_def Let_def)
  let ?s2 = "(emit (SetTimeout (Suc n) 2000) (s\<lparr>next_id := Suc (Suc n)\<rparr>))\<lparr>reconnects := []\<rparr>"
  have s2: "step env (TimerFired (Suc n)) ?s1 = reconnect_round env sd ?s2"
    by (simp add: timer_fired_def awaits_sleep_def emit_def)
  have "\<forall>l \<in> set (init_stdout ?s2). fst l \<le> next_id ?s2"
    using f(7) by auto
  from reconnect_round_probing [OF assms(2) _ _ _ _ _ _ this, of g] f
  show ?thesis
    unfolding s1 s2 by (simp add: emit_def)
qed

lemma failed_rounds:
  assumes "probing g n sd s" and "pick_ok env sd"
  shows "probing g (n + 2 * k) sd (run env (failed_probes n k) s)
       \<and> effects (run env (failed_probes n k) s)
           = effects s @ rounds (picks env sd (random_calls s) k) n
       \<and> init_stdout (run env (failed_probes n k) s) = init_stdout s
       \<and> nodeIP (run env (failed_probes n k) s) = nodeIP s
       \<and> gateways (run env (failed_probes n k) s) = gateways s"
  using assms(1)
proof (induction k arbitrary: n s)
  case 0
  then show ?case by (simp add: run_def)
next
  case (Suc k)
  let ?s2 = "step env (TimerFired (Suc n)) (step env (HttpResult n False) s)"
  note fr = failed_round [OF Suc.prems assms(2)]
  from fr have p: "probing g (Suc (Suc n)) sd ?s2" by simp
  have r: "run env (failed_probes n (Suc k)) s = run env (failed_probes (Suc (Suc n)) k) ?s2"
    by (simp add: run_def)
  from Suc.IH [OF p] fr show ?case
    unfolding r by simp
qed

lemma final_round:
  assumes "probing g n sd s" and "includes_str data ''Serving on''"
  shows "effects (step env (Stdout (Suc n) data) (step env (HttpResult n True) s))
           = effects s @ [Kill g ''SIGKILL'',
                Spawn (Suc n) [''rest-server'', ''--port'', LCD_PORT env, ''--home'', lcdHome env,
                               ''--node'', arg_of (nodeIP s)],
                Send ''connected'' (payload_of (nodeIP s))]
       \<and> \<not> connecting (step env (Stdout (Suc n) data) (step env (HttpResult n True) s))
       \<and> lcdProcess (step env (Stdout (Suc n) data) (step env (HttpResult n True) s)) = Some (Suc n)
       \<and> reconnects (step env (Stdout (Suc n) data) (step env (HttpResult n True) s)) = []"
proof -
  from assms obtain node where rc: "reconnects s = [RcProbe n sd node]"
    and f: "next_id s = Suc n" "connecting s" "main_pc s = MainDone" "lcdProcess s = Some g"
      "booted s" "mainWindow s = WindowOpen" "\<forall>l \<in> set (init_stdout s). fst l \<le> n"
    by (auto simp: probing_def)
  let ?s1 = "(snd (connect env (nodeIP s) (emit (Kill g ''SIGKILL'') (s\<lparr>reconnects := []\<rparr>))))
               \<lparr>reconnects := [RcConnect (Suc n) (nodeIP s)]\<rparr>"
  have s1: "step env (HttpResult n True) s = ?s1"
    using rc f(1,4)
    by (simp add: probe_result_def awaits_probe_def Let_def reconnect_finish_def split_def
        connect_def startLCD_def startProcess_def emit_def)
  have nf: "find (\<lambda>l. fst l = Suc n) (init_stdout s) = None"
    using f(7) by (auto simp: find_None_iff)
  have g: "gateways ?s1 = gateways s @ [Suc n]"
    using f(1) by (simp add: connect_def startLCD_def startProcess_def emit_def logProcess_def split_def)
  have c: "can_send ?s1" using f(6) by (simp add: can_send_def)
  have fd: "find (awaits_connect (Suc n)) (reconnects ?s1) = Some (RcConnect (Suc n) (nodeIP s))"
    by (simp add: awaits_connect_def)
  have s2: "step env (Stdout (Suc n) data) ?s1
      = snd (connect_resume (Suc n) (nodeIP s) (?s1\<lparr>reconnects := []\<rparr>))"
    using f(3) nf g assms(2) reconnect_serving_found [OF fd, of env] c
    by (simp add: stdout_data_def child_output_def gateway_serving_def awaits_connect_def
        del: includes_str.simps)
  have c': "can_send (?s1\<lparr>reconnects := []\<rparr>)" using c by simp
  show ?thesis
    unfolding s1 s2 connect_resume_can_send [OF c'] using f(1,5)
    by (simp add: emit_def connect_def startLCD_def startProcess_def logProcess_def split_def)
qed

lemma run_append: "run env (es @ es') s = run env es' (run env es s)"
  by (simp add: run_def)

text \<open>
  C1 (amended). In a connected state (\<open>connecting\<close> clear, gateway \<open>g\<close> running, the view
  booted, the window open), a reconnect request followed by \<open>k\<close> failed probes, a live
  probe and the marker output of the new gateway has these effects, in this order: a
  probe, with a timeout of 3000 ms, of the node that \<open>pickNode\<close> returns; \<open>k\<close> times a
  timer of 2000 ms and a probe of the node that the next call of \<open>pickNode\<close>
  returns; the kill of \<open>g\<close>; the spawn of one new gateway; one \<^verbatim>\<open>connected\<close> message.
  Every node probed is the host of a candidate (the forced node, or a member of the
  pool) with the port 46657. The new gateway and the message get the value of the
  module-level variable \<^verbatim>\<open>nodeIP\<close>, which the loop does not change. Afterwards the new
  gateway is the current one, \<open>connecting\<close> is clear and no reconnect is in flight. An
  exit of a process starts no reconnect; the exit of a gateway only sends an error
  to the view.
\<close>

theorem reconnect_restarts_gateway:
  assumes "\<not> connecting s" and "lcdProcess s = Some g" and "reconnects s = []"
    and "main_pc s = MainDone" and "booted s" and "mainWindow s = WindowOpen"
    and "\<forall>l \<in> set (init_stdout s). fst l < next_id s"
    and "pick_ok env (seeds s)" and "includes_str data ''Serving on''"
  shows "effects (run env (reconnect_events (next_id s) k data) s)
           = effects s
               @ HttpGet (next_id s) (''http://'' @ node_at env (seeds s) (random_calls s)) 3000
               # rounds (picks env (seeds s) (random_calls s + draws env) k) (next_id s)
               @ [Kill g ''SIGKILL'',
                  Spawn (Suc (next_id s + 2 * k))
                    [''rest-server'', ''--port'', LCD_PORT env, ''--home'', lcdHome env,
                     ''--node'', arg_of (nodeIP s)],
                  Send ''connected'' (payload_of (nodeIP s))]
       \<and> (\<forall>c. \<exists>m. candidate env (seeds s) m
               \<and> node_at env (seeds s) c = split_colon_first m @ '':46657'')
       \<and> \<not> connecting (run env (reconnect_events (next_id s) k data) s)
       \<and> lcdProcess (run env (reconnect_events (next_id s) k data) s) = Some (Suc (next_id s + 2 * k))
       \<and> reconnects (run env (reconnect_events (next_id s) k data) s) = []
       \<and> reconnects (step env (Exit p code) s) = []
       \<and> effects (step env (Exit p code) s)
           = effects s @ (if p \<in> set (gateways s)
                          then [Send ''error''
                                  (PError (Error ''The Gaia REST-server (LCD) exited unplanned''))]
                          else [])"
proof -
  let ?n = "next_id s"
  let ?sd = "seeds s"
  let ?s0 = "step env IpcReconnect s"
  have s0: "?s0 = reconnect_round env ?sd (s\<lparr>connecting := True\<rparr>)"
    using assms(1) by (simp add: reconnect_def)
  have fr: "\<forall>l \<in> set (init_stdout (s\<lparr>connecting := True\<rparr>)). fst l \<le> next_id (s\<lparr>connecting := True\<rparr>)"
    using assms(7) by auto
  from reconnect_round_probing [OF assms(8) _ _ _ _ _ _ fr, of g] assms(2-6)
  have p0: "probing g ?n ?sd ?s0"
    and e0: "effects ?s0 = effects s @ [HttpGet ?n (''http://'' @ node_at env ?sd (random_calls s)) 3000]"
    and c0: "random_calls ?s0 = random_calls s + draws env"
    and n0: "nodeIP ?s0 = nodeIP s"
    unfolding s0 by simp_all
  let ?s1 = "run env (failed_probes ?n k) ?s0"
  from failed_rounds [OF p0 assms(8), of k]
  have p1: "probing g (?n + 2 * k) ?sd ?s1"
    and e1: "effects ?s1 = effects ?s0 @ rounds (picks env ?sd (random_calls ?s0) k) ?n"
    and n1: "nodeIP ?s1 = nodeIP ?s0"
    by simp_all
  let ?s2 = "step env (Stdout (Suc (?n + 2 * k)) data) (step env (HttpResult (?n + 2 * k) True) ?s1)"
  have r: "run env (reconnect_events ?n k data) s = ?s2"
    by (simp add: reconnect_events_def run_def)
  note fin = final_round [OF p1 assms(9), of env]
  have e2: "effects ?s2 = effects s
               @ HttpGet ?n (''http://'' @ node_at env ?sd (random_calls s)) 3000
               # rounds (picks env ?sd (random_calls s + draws env) k) ?n
               @ [Kill g ''SIGKILL'',
                  Spawn (Suc (?n + 2 * k))
                    [''rest-server'', ''--port'', LCD_PORT env, ''--home'', lcdHome env,
                     ''--node'', arg_of (nodeIP s)],
                  Send ''connected'' (payload_of (nodeIP s))]"
    using fin e1 e0 c0 n1 n0 by simp
  have cand: "\<forall>c. \<exists>m. candidate env ?sd m
               \<and> node_at env ?sd c = split_colon_first m @ '':46657''"
    using pick_ok_node_at(2) [OF assms(8)] by blast
  have cs: "can_send s" using assms(6) by (simp add: can_send_def)
  have x: "step env (Exit p code) s = (if p \<in> set (gateways s) then gateway_exit env s else s)"
    using assms(4) by (simp add: child_exit_other)
  have "effects (step env (Exit p code) s)
           = effects s @ (if p \<in> set (gateways s)
                          then [Send ''error''
                                  (PError (Error ''The Gaia REST-server (LCD) exited unplanned''))]
                          else [])"
    unfolding x using assms(5) by (simp add: gateway_exit_can_send [OF cs] emit_def)
  moreover have "reconnects (step env (Exit p code) s) = []"
    unfolding x using assms(3) by simp
  ultimately show ?thesis
    using e2 cand fin unfolding r by simp
qed

lemma example_connected_reached:
  "run example_env
     [AppReady, Stdout 0 ''0.19.0'', IpcBooted, Stderr 1 ''already is initialized'',
      Stdout 2 ''Serving on'']
     (main example_env (Some example_dir)) = example_connected"
proof -
  have "run example_env
     [AppReady, Stdout 0 ''0.19.0'', IpcBooted, Stderr 1 ''already is initialized'',
      Stdout 2 ''Serving on'']
     (main example_env (Some example_dir))
     = step example_env (Stdout 2 ''Serving on'')
         (run example_env [AppReady, Stdout 0 ''0.19.0'', IpcBooted,
                           Stderr 1 ''already is initialized'']
            (main example_env (Some example_dir)))"
    by (simp only: run_def foldl.simps)
  also have "\<dots> = step example_env (Stdout 2 ''Serving on'') example_starting"
    by (simp only: example_starting_reached)
  also have "\<dots> = example_connected"
    by (simp add: stdout_data_def child_output_def gateway_serving_def starts_with_def
        connect_resume_def afterBooted_def send_def emit_def payload_of_def example_connected_def
        example_starting_def)
  finally show ?thesis .
qed

lemma example_connected_simps [simp]:
  "\<not> connecting example_connected" "lcdProcess example_connected = Some 2"
  "reconnects example_connected = []" "main_pc example_connected = MainDone"
  "booted example_connected" "init_stdout example_connected = []"
  "next_id example_connected = 3" "gateways example_connected = [2]"
  "seeds example_connected = Some [''a.example:26656'', ''b.example:26656'']"
  "nodeIP example_connected = Some ''a.example:46657''"
  "random_calls example_connected = 1" "mainWindow example_connected = WindowOpen"
  by (simp_all add: example_connected_def example_starting_def)

theorem reconnect_restarts_gateway_witness:
  "effects (run example_env (reconnect_events 3 1 ''Serving on'') example_connected)
     = effects example_connected
         @ [HttpGet 3 ''http://b.example:46657'' 3000,
            SetTimeout 4 2000,
            HttpGet 5 ''http://b.example:46657'' 3000,
            Kill 2 ''SIGKILL'',
            Spawn 6 [''rest-server'', ''--port'', ''8998'', ''--home'',
                     ''/home/user/.cosmos-voyager/lcd'', ''--node'', ''a.example:46657''],
            Send ''connected'' (PString ''a.example:46657'')]
   \<and> \<not> connecting (run example_env (reconnect_events 3 1 ''Serving on'') example_connected)
   \<and> lcdProcess (run example_env (reconnect_events 3 1 ''Serving on'') example_connected) = Some 6
   \<and> reconnects (run example_env (reconnect_events 3 1 ''Serving on'') example_connected) = []
   \<and> reconnects (step example_env (Exit 2 1) example_connected) = []"
proof -
  have m: "includes_str ''Serving on'' ''Serving on''" by (simp add: starts_with_def)
  have f: "\<forall>l \<in> set (init_stdout example_connected). fst l < next_id example_connected" by simp
  have p: "pick_ok example_env (seeds example_connected)" by (simp add: example_pick_ok)
  have e: "LCD_PORT example_env = ''8998''" "lcdHome example_env = ''/home/user/.cosmos-voyager/lcd''"
    by (simp_all add: example_env_def)
  note t = reconnect_restarts_gateway [of example_connected 2 example_env "''Serving on''" 1 2 1,
      OF _ _ _ _ _ _ f p m]
  have "effects (run example_env (reconnect_events 3 1 ''Serving on'') example_connected)
     = effects example_connected
         @ [HttpGet 3 ''http://b.example:46657'' 3000,
            SetTimeout 4 2000,
            HttpGet 5 ''http://b.example:46657'' 3000,
            Kill 2 ''SIGKILL'',
            Spawn 6 [''rest-server'', ''--port'', ''8998'', ''--home'',
                     ''/home/user/.cosmos-voyager/lcd'', ''--node'', ''a.example:46657''],
            Send ''connected'' (PString ''a.example:46657'')]"
    using t [THEN conjunct1]
    by (simp add: example_node_at e arg_of_def payload_of_def numeral_2_eq_2)
  moreover have "\<not> connecting (run example_env (reconnect_events 3 1 ''Serving on'') example_connected)
   \<and> lcdProcess (run example_env (reconnect_events 3 1 ''Serving on'') example_connected) = Some 6
   \<and> reconnects (run example_env (reconnect_events 3 1 ''Serving on'') example_connected) = []
   \<and> reconnects (step example_env (Exit 2 1) example_connected) = []"
    using t [THEN conjunct2, THEN conjunct2] by simp
  ultimately show ?thesis by blast
qed

text \<open>
  C1 as stated fails twice. The probe finds \<open>b.example:46657\<close> alive, and the gateway
  is restarted with the node \<open>a.example:46657\<close> of the module-level variable, which
  the \<^verbatim>\<open>connected\<close> message carries too. And the exit of the gateway while connected
  sends an error and starts no probe.
\<close>

theorem reconnect_stale_node_counterexample:
  "effects (run example_env
      [AppReady, Stdout 0 ''0.19.0'', IpcBooted, Stderr 1 ''already is initialized'',
       Stdout 2 ''Serving on'', IpcReconnect, HttpResult 3 True, Stdout 4 ''Serving on'']
      (main example_env (Some example_dir)))
   = [Spawn 0 [''version''],
      Spawn 1 [''client'', ''init'', ''--home'', ''/home/user/.cosmos-voyager/lcd''],
      Spawn 2 [''rest-server'', ''--port'', ''8998'', ''--home'',
               ''/home/user/.cosmos-voyager/lcd'', ''--node'', ''a.example:46657''],
      Send ''connected'' (PString ''a.example:46657''),
      HttpGet 3 ''http://b.example:46657'' 3000,
      Kill 2 ''SIGKILL'',
      Spawn 4 [''rest-server'', ''--port'', ''8998'', ''--home'',
               ''/home/user/.cosmos-voyager/lcd'', ''--node'', ''a.example:46657''],
      Send ''connected'' (PString ''a.example:46657'')]
   \<and> effects (run example_env
      [AppReady, Stdout 0 ''0.19.0'', IpcBooted, Stderr 1 ''already is initialized'',
       Stdout 2 ''Serving on'', Exit 2 1]
      (main example_env (Some example_dir)))
   = [Spawn 0 [''version''],
      Spawn 1 [''client'', ''init'', ''--home'', ''/home/user/.cosmos-voyager/lcd''],
      Spawn 2 [''rest-server'', ''--port'', ''8998'', ''--home'',
               ''/home/user/.cosmos-voyager/lcd'', ''--node'', ''a.example:46657''],
      Send ''connected'' (PString ''a.example:46657''),
      Send ''error'' (PError (Error ''The Gaia REST-server (LCD) exited unplanned''))]"
proof -
  let ?es = "[AppReady, Stdout 0 ''0.19.0'', IpcBooted, Stderr 1 ''already is initialized'',
              Stdout 2 ''Serving on'']"
  let ?s = "main example_env (Some example_dir)"
  have a: "run example_env
      [AppReady, Stdout 0 ''0.19.0'', IpcBooted, Stderr 1 ''already is initialized'',
       Stdout 2 ''Serving on'', IpcReconnect, HttpResult 3 True, Stdout 4 ''Serving on''] ?s
     = step example_env (Stdout 4 ''Serving on'') (step example_env (HttpResult 3 True)
         (step example_env IpcReconnect (run example_env ?es ?s)))"
    by (simp only: run_def foldl.simps)
  have b: "run example_env
      [AppReady, Stdout 0 ''0.19.0'', IpcBooted, Stderr 1 ''already is initialized'',
       Stdout 2 ''Serving on'', Exit 2 1] ?s
     = step example_env (Exit 2 1) (run example_env ?es ?s)"
    by (simp only: run_def foldl.simps)
  have r: "step example_env IpcReconnect example_connected
     = example_connected\<lparr>connecting := True, next_id := 4, random_calls := 2,
         reconnects := [RcProbe 3 (Some [''a.example:26656'', ''b.example:26656'']) ''b.example:46657''],
         effects := effects example_connected @ [HttpGet 3 ''http://b.example:46657'' 3000]\<rparr>"
    by (simp add: reconnect_def reconnect_round_def pick_def truthy_def example_env_def pickNode_def
        element_at_def split_colon_first_def emit_def)
  show ?thesis
    unfolding a b example_connected_reached r
    by (simp add: probe_result_def awaits_probe_def reconnect_finish_def connect_def startLCD_def
        startProcess_def logProcess_def emit_def arg_of_def example_env_def stdout_data_def
        child_output_def gateway_serving_def reconnect_serving_def awaits_connect_def starts_with_def
        connect_resume_def afterBooted_def send_def payload_of_def child_exit_def gateway_exit_def
        example_connected_def example_starting_def)
qed

lemma reconnect_round_connecting [simp]:
  "connecting (reconnect_round env sd s) = connecting s"
  by (simp add: reconnect_round_def split_def emit_def split: sum.splits)

lemma reconnect_finish_connecting [simp]:
  "connecting (reconnect_finish env s) = connecting s"
  by (simp add: reconnect_finish_def split_def Let_def split: option.splits)

lemma probe_result_connecting [simp]:
  "connecting (probe_result env r alive s) = connecting s"
  by (simp add: probe_result_def Let_def emit_def split: option.splits reconnect_pc.splits)

lemma timer_fired_connecting [simp]:
  "connecting (timer_fired env r s) = connecting s"
  by (simp add: timer_fired_def split: option.splits reconnect_pc.splits)




text \<open>
  C8. In every state that a run of the program reaches, at most one call of
  \<^verbatim>\<open>reconnect\<close> is in flight, and while one is in flight a reconnect request changes
  nothing: it starts no further loop.
\<close>

theorem single_reconnect_loop:
  "length (reconnects (run env es (main env fs0))) \<le> 1
   \<and> (reconnects (run env es (main env fs0)) \<noteq> [] \<longrightarrow>
        step env IpcReconnect (run env es (main env fs0)) = run env es (main env fs0))"
proof -
  have "single_reconnect (run env es (main env fs0))"
    by (intro run_inv main_inv)
  then show ?thesis
    by (auto simp: single_reconnect_def reconnect_def)
qed

theorem single_reconnect_loop_witness:
  "length (reconnects (run example_env
      [AppReady, Stdout 0 ''0.19.0'', IpcBooted, Stderr 1 ''already is initialized'',
       Stdout 2 ''Serving on'', IpcReconnect, IpcReconnect]
      (main example_env (Some example_dir)))) \<le> 1
   \<and> reconnects (run example_env
      [AppReady, Stdout 0 ''0.19.0'', IpcBooted, Stderr 1 ''already is initialized'',
       Stdout 2 ''Serving on'', IpcReconnect, IpcReconnect]
      (main example_env (Some example_dir)))
     = [RcProbe 3 (Some [''a.example:26656'', ''b.example:26656'']) ''b.example:46657'']
   \<and> step example_env IpcReconnect (run example_env
      [AppReady, Stdout 0 ''0.19.0'', IpcBooted, Stderr 1 ''already is initialized'',
       Stdout 2 ''Serving on'', IpcReconnect, IpcReconnect]
      (main example_env (Some example_dir)))
     = run example_env
      [AppReady, Stdout 0 ''0.19.0'', IpcBooted, Stderr 1 ''already is initialized'',
       Stdout 2 ''Serving on'', IpcReconnect, IpcReconnect]
      (main example_env (Some example_dir))"
proof -
  let ?es = "[AppReady, Stdout 0 ''0.19.0'', IpcBooted, Stderr 1 ''already is initialized'',
              Stdout 2 ''Serving on'']"
  let ?all = "[AppReady, Stdout 0 ''0.19.0'', IpcBooted, Stderr 1 ''already is initialized'',
               Stdout 2 ''Serving on'', IpcReconnect, IpcReconnect]"
  let ?s = "main example_env (Some example_dir)"
  have a: "run example_env ?all ?s
     = step example_env IpcReconnect (step example_env IpcReconnect (run example_env ?es ?s))"
    by (simp only: run_def foldl.simps)
  have r: "reconnects (run example_env ?all ?s)
     = [RcProbe 3 (Some [''a.example:26656'', ''b.example:26656'']) ''b.example:46657'']"
    unfolding a example_connected_reached
    by (simp add: reconnect_def reconnect_round_def pick_def truthy_def example_env_def pickNode_def
        element_at_def split_colon_first_def emit_def)
  note t = single_reconnect_loop [of example_env ?all "Some example_dir"]
  from r have "reconnects (run example_env ?all ?s) \<noteq> []" by simp
  with t have "step example_env IpcReconnect (run example_env ?all ?s) = run example_env ?all ?s"
    by blast
  with t r show ?thesis by blast
qed

subsection \<open>Before the first connection\<close>

lemma announced_update [simp]:
  "announced (s\<lparr>shuttingDown := x0\<rparr>) = announced s"
  "announced (s\<lparr>mainWindow := xw\<rparr>) = announced s"
  "announced (s\<lparr>lcdProcess := x1\<rparr>) = announced s"
  "announced (s\<lparr>nodeIP := x2\<rparr>) = announced s"
  "announced (s\<lparr>connecting := x3\<rparr>) = announced s"
  "announced (s\<lparr>seeds := x4\<rparr>) = announced s"
  "announced (s\<lparr>booted := x5\<rparr>) = announced s"
  "announced (s\<lparr>files := x6\<rparr>) = announced s"
  "announced (s\<lparr>next_id := x7\<rparr>) = announced s"
  "announced (s\<lparr>random_calls := x8\<rparr>) = announced s"
  "announced (s\<lparr>hash_approved := x9\<rparr>) = announced s"
  "announced (s\<lparr>hash_disapproved := x10\<rparr>) = announced s"
  "announced (s\<lparr>init_stdout := x11\<rparr>) = announced s"
  "announced (s\<lparr>exit_listeners := x12\<rparr>) = announced s"
  "announced (s\<lparr>gateways := x13\<rparr>) = announced s"
  "announced (s\<lparr>main_pc := x14\<rparr>) = announced s"
  "announced (s\<lparr>reconnects := x15\<rparr>) = announced s"
  by (simp_all add: announced_def)

lemma announced_cong:
  "effects s' = effects s \<Longrightarrow> booted_once s' = booted_once s \<Longrightarrow> lost s' = lost s \<Longrightarrow>
   announced s' = announced s"
  by (simp add: announced_def)

lemma announced_emit: "announced (emit e s) = (announced s \<or> is_connected_send e)"
  by (auto simp: announced_def emit_def)

lemma announced_queue:
  "announced (s\<lparr>booted_once := booted_once s @ [m]\<rparr>) = (announced s \<or> fst m = ''connected'')"
  by (auto simp: announced_def)

lemma uncaught_unhandled: "uncaughtException env err s = unhandledRejection env err s"
  by (simp add: uncaughtException_def unhandledRejection_def)

lemma announced_unhandledRejection [simp]:
  "announced (unhandledRejection env err s) = announced s"
  by (cases "can_send s")
     (simp_all add: crash_can_send crash_cannot announced_emit announced_queue is_connected_send_def)

lemma announced_uncaughtException [simp]:
  "announced (uncaughtException env err s) = announced s"
  by (simp add: uncaught_unhandled)

lemma announced_gateway_exit [simp]: "announced (gateway_exit env s) = announced s"
  by (cases "can_send s")
     (simp_all add: gateway_exit_can_send gateway_exit_cannot announced_emit announced_queue
        is_connected_send_def)

lemma announced_fail_main [simp]: "announced (fail_main env err s) = announced s"
proof (cases "can_send s")
  case True
  have "announced (s\<lparr>main_pc := MainFailed err,
          booted_once := booted_once s @ [(''error'', PError err)]\<rparr>) = announced s"
    by (simp add: announced_def)
  with True show ?thesis
    by (simp add: fail_main_can_send announced_emit is_connected_send_def)
next
  case False
  then show ?thesis by (simp add: fail_main_cannot)
qed

lemma announced_simple [simp]:
  "announced (logProcess name s) = announced s"
  "announced (snd (pick env sd s)) = announced s"
  "announced (handleHashVerification tr s) = announced s"
  "announced (shutdown s) = announced s"
  "announced (createWindow s) = announced s"
  "announced (activate s) = announced s"
  "announced (window_closed s) = announced s"
  "announced (snd (startProcess args s)) = announced s"
  "announced (snd (startLCD env hm node s)) = announced s"
  "announced (snd (connect env node s)) = announced s"
  "announced (initLCD cid hm node s) = announced s"
  by (auto simp: announced_def emit_def logProcess_def pick_def handleHashVerification_def
      shutdown_def createWindow_def activate_def window_closed_def
      startProcess_def startLCD_def connect_def initLCD_def
      is_connected_send_def split_def Let_def list_ex_iff split: option.splits)

lemma announced_booted_listeners:
  "booted_once s = ms \<Longrightarrow> announced (booted_listeners env ms s) = announced s"
proof (induction ms arbitrary: s)
  case Nil
  then show ?case by simp
next
  case (Cons m ms)
  show ?case
  proof (cases "mainWindow s = WindowOpen")
    case True
    let ?s' = "emit (Send (fst m) (snd m)) (s\<lparr>booted_once := ms\<rparr>)"
    have "booted_once ?s' = ms" by simp
    from Cons.IH [OF this] True Cons.prems show ?thesis
      by (auto simp: send_def announced_def emit_def is_connected_send_def)
  next
    case False
    then obtain err where "send m (s\<lparr>booted_once := ms\<rparr>) = Inl err"
      using send_closed [of "s\<lparr>booted_once := ms\<rparr>" m] by auto
    then have "announced (booted_listeners env (m # ms) s)
        = announced (s\<lparr>booted_once := ms, lost := lost s @ [m]\<rparr>)"
      by simp
    also have "\<dots> = announced s"
      using Cons.prems by (auto simp: announced_def)
    finally show ?thesis .
  qed
qed

lemma announced_booted_message [simp]: "announced (booted_message env s) = announced s"
  using announced_booted_listeners [of "s\<lparr>booted := True\<rparr>" "booted_once s" env]
  by (simp add: booted_message_def)


lemma announced_main_connect [simp]: "announced (main_connect env s) = announced s"
  by (simp add: main_connect_def split_def Let_def)

lemma announced_init_settled [simp]: "announced (init_settled env outcome s) = announced s"
  by (simp add: init_settled_def split: main_pc.splits option.splits)

lemma announced_approved [simp]: "announced (approved tr s) = announced s"
  by (simp add: approved_def announced_def emit_def is_connected_send_def)

lemma announced_rejected [simp]: "announced (rejected env tr s) = announced s"
proof -
  have k: "announced (emit (Kill (child tr) ''SIGTERM'') s) = announced s"
    by (simp add: announced_emit is_connected_send_def)
  show ?thesis
    by (simp add: rejected_def Let_def split_def k split: sum.splits)
qed

lemma announced_settle [simp]: "announced (settle env h s tr) = announced s"
  by (simp add: settle_def)

lemma announced_foldl_settle [simp]: "announced (foldl (settle env h) s trs) = announced s"
  by (induction trs arbitrary: s) simp_all

lemma announced_foldl_rejected [simp]:
  "announced (foldl (\<lambda>s' tr'. rejected env tr' s') s trs) = announced s"
  by (induction trs arbitrary: s) simp_all

lemma announced_hash_messages [simp]:
  "announced (hash_approved_message env h s) = announced s"
  "announced (hash_disapproved_message env s) = announced s"
  by (simp_all add: hash_approved_message_def hash_disapproved_message_def split: list.splits)

lemma announced_foldl_exit [simp]:
  "announced (foldl (\<lambda>s' q. if q = p then init_settled env (expectCleanExit code s') s' else s') s qs)
     = announced s"
  by (induction qs arbitrary: s) simp_all

lemma announced_child_exit [simp]: "announced (child_exit env p code s) = announced s"
  by (simp add: child_exit_def)

lemma announced_child_error [simp]: "announced (child_error env p code s) = announced s"
proof (cases "can_send s")
  case True
  from afterBooted_can_send [OF True, of "(''error'', PError (ChildFailure code))"] show ?thesis
    by (simp add: child_error_def handleCrash_def announced_emit announced_queue
        is_connected_send_def)
next
  case False
  from afterBooted_cannot [OF False, of "(''error'', PError (ChildFailure code))"] show ?thesis
    by (auto simp: child_error_def handleCrash_def)
qed

lemma announced_init_output [simp]: "announced (init_output env l data s) = announced s"
proof (cases "hashMatch data")
  case None
  then show ?thesis by (simp add: init_output_def)
next
  case (Some h)
  show ?thesis
  proof (cases "can_send s")
    case True
    from afterBooted_can_send [OF True, of "(''approve-hash'', PString h)"] Some show ?thesis
      by (simp add: init_output_def announced_emit announced_queue is_connected_send_def)
  next
    case False
    from afterBooted_cannot [OF False, of "(''approve-hash'', PString h)"] Some show ?thesis
      by (auto simp: init_output_def)
  qed
qed

lemma announced_main_resume_version [simp]:
  "announced (main_resume_version env data init s) = announced s"
  by (simp add: main_resume_version_def lcdInitialized_def Let_def split_def
      split: sum.splits prod.splits)

lemma announced_main_resume_initialized [simp]:
  "announced (main_resume_initialized env init cid b s) = announced s"
  by (simp add: main_resume_initialized_def)

lemma announced_stderr_data [simp]: "announced (stderr_data env p data s) = announced s"
  by (simp add: stderr_data_def split: main_pc.splits)

lemma announced_reconnect_round [simp]: "announced (reconnect_round env sd s) = announced s"
  by (simp add: reconnect_round_def split_def announced_emit is_connected_send_def
      split: sum.splits)

lemma announced_reconnect [simp]: "announced (reconnect env s) = announced s"
  by (simp add: reconnect_def)

lemma announced_reconnect_finish [simp]: "announced (reconnect_finish env s) = announced s"
  by (simp add: reconnect_finish_def split_def Let_def announced_emit is_connected_send_def
      split: option.splits)

lemma announced_probe_result [simp]: "announced (probe_result env r alive s) = announced s"
  by (simp add: probe_result_def Let_def announced_emit is_connected_send_def
      split: option.splits reconnect_pc.splits)

lemma announced_timer_fired [simp]: "announced (timer_fired env r s) = announced s"
  by (simp add: timer_fired_def split: option.splits reconnect_pc.splits)







lemma announced_initial [simp]: "\<not> announced (initial fs)"
  by (simp add: announced_def initial_def)




subsection \<open>Messages that are lost\<close>

lemma lost_handshake [simp]:
  "lost (main_connect env s) = lost s"
  "lost (init_settled env outcome s) = lost s"
  "lost (approved tr s) = lost s"
  "lost (rejected env tr s) = lost s"
  "lost (settle env h s tr) = lost s"
  by (simp_all add: main_connect_def init_settled_def approved_def rejected_def settle_def
      split_def Let_def split: main_pc.splits option.splits sum.splits)

lemma lost_foldl [simp]:
  "lost (foldl (settle env h) s trs) = lost s"
  "lost (foldl (\<lambda>s' tr'. rejected env tr' s') s trs) = lost s"
  "lost (foldl (\<lambda>s' q. if q = p then init_settled env (expectCleanExit code s') s' else s') s qs)
     = lost s"
  by (induction trs arbitrary: s; simp)+ (induction qs arbitrary: s; simp)

lemma lost_messages [simp]:
  "lost (hash_approved_message env h s) = lost s"
  "lost (hash_disapproved_message env s) = lost s"
  "lost (child_exit env p code s) = lost s"
  by (simp_all add: hash_approved_message_def hash_disapproved_message_def child_exit_def
      split: list.splits)

lemma lost_main [simp]:
  "lost (main_resume_version env data init s) = lost s"
  "lost (main_resume_initialized env init cid b s) = lost s"
  "lost (stderr_data env p data s) = lost s"
  by (simp_all add: main_resume_version_def main_resume_initialized_def stderr_data_def
      lcdInitialized_def Let_def split_def split: sum.splits prod.splits main_pc.splits)

lemma lost_reconnect [simp]:
  "lost (reconnect_round env sd s) = lost s"
  "lost (reconnect env s) = lost s"
  "lost (reconnect_finish env s) = lost s"
  "lost (probe_result env r alive s) = lost s"
  "lost (timer_fired env r s) = lost s"
  by (simp_all add: reconnect_round_def reconnect_def reconnect_finish_def probe_result_def
      timer_fired_def split_def Let_def
      split: sum.splits option.splits reconnect_pc.splits)

lemma lost_serving [simp]:
  "lost (reconnect_serving env p s) = lost s"
  "lost (gateway_serving env p s) = lost s"
  by (simp_all add: reconnect_serving_def gateway_serving_def split_def
      split: option.splits reconnect_pc.splits main_pc.splits)

lemma lost_stdout [simp]: "lost (stdout_data env p data s) = lost s"
  by (simp add: stdout_data_def child_output_def split: main_pc.splits option.splits
      del: includes_str.simps)

lemma booted_listeners_open:
  "mainWindow s = WindowOpen \<Longrightarrow>
   booted_listeners env ms s =
     s\<lparr>booted_once := (if ms = [] then booted_once s else []),
       effects := effects s @ map (\<lambda>m. Send (fst m) (snd m)) ms\<rparr>"
  by (induction ms arbitrary: s) (simp_all add: send_def emit_def)

lemma booted_message_open:
  "mainWindow s = WindowOpen \<Longrightarrow>
   booted_message env s =
     s\<lparr>booted := True, booted_once := [],
       effects := effects s @ map (\<lambda>m. Send (fst m) (snd m)) (booted_once s)\<rparr>"
  by (simp add: booted_message_def booted_listeners_open)

text \<open>
  A message is lost only by a \<^verbatim>\<open>booted\<close> message that arrives without an open window.
  With the window open, the \<^verbatim>\<open>booted\<close> message sends everything that waits.
\<close>

lemma lost_only_at_boot:
  assumes "lost (step env e s) \<noteq> lost s"
  shows "e = IpcBooted \<and> mainWindow s \<noteq> WindowOpen \<and> booted_once s \<noteq> []"
proof (cases e)
  case IpcBooted
  show ?thesis
  proof (cases "mainWindow s = WindowOpen")
    case True
    with assms IpcBooted show ?thesis by (simp add: booted_message_open)
  next
    case False
    with assms IpcBooted show ?thesis
      by (cases "booted_once s") (simp_all add: booted_message_def)
  qed
qed (use assms in simp_all)

end
